theory Spec2Isabelle
  imports Main
begin

section \<open>JavaScript strings and values\<close>

text \<open>
  A JavaScript string is modelled as a \<^typ>\<open>string\<close>, one \<^typ>\<open>char\<close> per code unit:
  the texts covered are those whose code units are below 256. Among these the class
  \<^verbatim>\<open>\s\<close>, which is also what \<^verbatim>\<open>trim\<close> strips, holds tab, line feed, vertical tab,
  form feed, carriage return, space and the no-break space U+00A0; \<^verbatim>\<open>\d\<close> and
  \<^verbatim>\<open>\w\<close> hold ASCII code units only.
\<close>

definition isSpace :: "char \<Rightarrow> bool" where
  "isSpace c =
     (c \<in> set [CHR 0x09, CHR 0x0A, CHR 0x0B, CHR 0x0C, CHR 0x0D, CHR 0x20, CHR 0xA0])"

definition isDigit :: "char \<Rightarrow> bool" where
  "isDigit c = (c \<in> set ''0123456789'')"

definition lowerLetters :: string where
  "lowerLetters = ''abcdefghijklmnopqrstuvwxyz''"

definition upperLetters :: string where
  "upperLetters = ''ABCDEFGHIJKLMNOPQRSTUVWXYZ''"

text \<open>The class \<^verbatim>\<open>\w\<close>, which decides where \<^verbatim>\<open>\b\<close> holds.\<close>

definition isWordChar :: "char \<Rightarrow> bool" where
  "isWordChar c = (c \<in> set lowerLetters \<or> c \<in> set upperLetters \<or> isDigit c \<or> c = CHR ''_'')"

text \<open>
  Case conversion of the letters a-z and A-Z. Of the code units below 256 JavaScript also
  converts letters beyond ASCII, but none of them to an ASCII letter, except the sharp s,
  whose upper case is SS: the comparisons of converted text with the keywords and with
  \<^verbatim>\<open>true\<close> and \<^verbatim>\<open>false\<close>, none of which holds two s in a row, come out the same.
\<close>

definition upperChar :: "char \<Rightarrow> char" where
  "upperChar c = (case map_of (zip lowerLetters upperLetters) c of Some u \<Rightarrow> u | None \<Rightarrow> c)"

definition lowerChar :: "char \<Rightarrow> char" where
  "lowerChar c = (case map_of (zip upperLetters lowerLetters) c of Some l \<Rightarrow> l | None \<Rightarrow> c)"

definition toUpperCase :: "string \<Rightarrow> string" where
  "toUpperCase s = map upperChar s"

definition toLowerCase :: "string \<Rightarrow> string" where
  "toLowerCase s = map lowerChar s"

text \<open>\<^verbatim>\<open>String.prototype.trim\<close>: strips white space at both ends.\<close>

definition trim :: "string \<Rightarrow> string" where
  "trim s = rev (dropWhile isSpace (rev (dropWhile isSpace s)))"

definition startsWith :: "string \<Rightarrow> string \<Rightarrow> bool" where
  "startsWith s p = (take (length p) s = p)"

definition endsWith :: "string \<Rightarrow> string \<Rightarrow> bool" where
  "endsWith s p = (length p \<le> length s \<and> drop (length s - length p) s = p)"

text \<open>\<^verbatim>\<open>String.prototype.includes\<close>: the argument occurs somewhere in the receiver.\<close>

fun includes_str :: "string \<Rightarrow> string \<Rightarrow> bool" where
  "includes_str [] p = (p = [])"
| "includes_str (c # s) p = (startsWith (c # s) p \<or> includes_str s p)"

text \<open>\<^verbatim>\<open>Array.prototype.join\<close>.\<close>

fun join :: "string \<Rightarrow> string list \<Rightarrow> string" where
  "join sep [] = []"
| "join sep [x] = x"
| "join sep (x # y # ys) = x @ sep @ join sep (y # ys)"

text \<open>
  The decimal text of an integer, as \<^verbatim>\<open>String(n)\<close> and a template literal give it
  for a number that is an integer of magnitude up to \<open>maxSafeInteger\<close>
  (\<^verbatim>\<open>Number.MAX_SAFE_INTEGER\<close>); far beyond it JavaScript prints an exponent.
\<close>

definition maxSafeInteger :: int where
  "maxSafeInteger = 9007199254740991"

fun showNat :: "nat \<Rightarrow> string" where
  "showNat n = (if n < 10 then [''0123456789'' ! n]
                else showNat (n div 10) @ [''0123456789'' ! (n mod 10)])"

declare showNat.simps [simp del]

definition showInt :: "int \<Rightarrow> string" where
  "showInt i = (if i < 0 then CHR ''-'' # showNat (nat (- i)) else showNat (nat i))"

text \<open>
  The values a cell or a bound parameter can hold. Numbers and objects stay abstract
  (\<open>'n\<close>, \<open>'o\<close>): what the runtime does with them comes in through \<open>js_runtime\<close>.
\<close>

datatype ('n, 'o) jsval =
    JNull
  | JUndefined
  | JBool bool
  | JNum 'n
  | JStr string
  | JObj 'o

text \<open>
  The built-ins of the JavaScript runtime the services call: \<^verbatim>\<open>JSON.parse\<close>
  (\<open>None\<close> when it throws), \<^verbatim>\<open>JSON.stringify\<close>, \<^verbatim>\<open>Number\<close>, \<^verbatim>\<open>isNaN\<close> and
  \<^verbatim>\<open>String\<close> on a number; and the message of the TypeError the engine throws when a
  property (named) is read of \<^verbatim>\<open>undefined\<close>, and when \<^verbatim>\<open>Object.entries\<close> is given
  \<^verbatim>\<open>undefined\<close>.
\<close>

record ('n, 'o) js_runtime =
  JSON_parse :: "string \<Rightarrow> ('n, 'o) jsval option"
  JSON_stringify :: "'o \<Rightarrow> string"
  Number :: "string \<Rightarrow> 'n"
  isNaN :: "'n \<Rightarrow> bool"
  String_of_number :: "'n \<Rightarrow> string"
  readOfUndefined :: "string \<Rightarrow> string"
  entriesOfUndefined :: string

section \<open>models/types.ts\<close>

record ColumnInfo =
  name :: string
  dataType :: string
  dataTypeId :: nat

section \<open>services/dataModificationService.ts: value coercion\<close>

definition numericTypes :: "string list" where
  "numericTypes = [''integer'', ''bigint'', ''smallint'', ''real'', ''double precision'',
                   ''numeric'', ''decimal'']"

text \<open>\<^verbatim>\<open>column?.dataType === t\<close>: false when there is no column.\<close>

definition columnTypeIs :: "ColumnInfo option \<Rightarrow> string \<Rightarrow> bool" where
  "columnTypeIs column t = (case column of None \<Rightarrow> False | Some c \<Rightarrow> dataType c = t)"

definition convertValue ::
  "('n, 'o) js_runtime \<Rightarrow> ('n, 'o) jsval \<Rightarrow> ColumnInfo option \<Rightarrow> ('n, 'o) jsval" where
  "convertValue rt v column =
     (if v = JNull \<or> v = JUndefined \<or> v = JStr [] then JNull
      else case v of
        JStr s \<Rightarrow>
          if columnTypeIs column ''json'' \<or> columnTypeIs column ''jsonb'' then
            (case JSON_parse rt s of Some parsed \<Rightarrow> parsed | None \<Rightarrow> v)
          else if columnTypeIs column ''boolean'' \<and> toLowerCase s = ''true'' then JBool True
          else if columnTypeIs column ''boolean'' \<and> toLowerCase s = ''false'' then JBool False
          else if (case column of None \<Rightarrow> False | Some c \<Rightarrow> dataType c \<in> set numericTypes)
                  \<and> \<not> isNaN rt (Number rt s) then JNum (Number rt s)
          else v
      | _ \<Rightarrow> v)"

text \<open>
  A runtime instance for evaluating the model at concrete inputs: a number is an integer
  or NaN (\<open>None\<close>), \<^verbatim>\<open>Number\<close> reads a run of decimal digits, and
  \<^verbatim>\<open>JSON.parse\<close> accepts the texts \<^verbatim>\<open>null\<close>, \<^verbatim>\<open>true\<close> and \<^verbatim>\<open>false\<close>.
\<close>

definition digitValue :: "char \<Rightarrow> nat" where
  "digitValue c = (case map_of (zip ''0123456789'' [0, 1, 2, 3, 4, 5, 6, 7, 8, 9]) c of
                     Some d \<Rightarrow> d | None \<Rightarrow> 0)"

definition sampleRuntime :: "(int option, unit) js_runtime" where
  "sampleRuntime =
     \<lparr> JSON_parse = (\<lambda>s. if s = ''null'' then Some JNull
                           else if s = ''true'' then Some (JBool True)
                           else if s = ''false'' then Some (JBool False) else None),
       JSON_stringify = (\<lambda>_. ''{}''),
       Number = (\<lambda>s. if s \<noteq> [] \<and> list_all isDigit s
                       then Some (int (foldl (\<lambda>a c. 10 * a + digitValue c) 0 s)) else None),
       isNaN = (\<lambda>n. n = None),
       String_of_number = (\<lambda>n. case n of None \<Rightarrow> ''NaN'' | Some i \<Rightarrow> showInt i),
       readOfUndefined = (\<lambda>p. ''Cannot read properties of undefined (reading '' @ [CHR 0x27]
                                @ p @ [CHR 0x27] @ '')''),
       entriesOfUndefined = ''Cannot convert undefined or null to object'' \<rparr>"

section \<open>Regular expressions\<close>

text \<open>
  The fragment of JavaScript regular expressions the sources use: literal text, greedy
  \<^verbatim>\<open>c+\<close> and \<^verbatim>\<open>c*\<close> over the classes \<^verbatim>\<open>\s\<close> and \<^verbatim>\<open>\d\<close>, sequence, alternative, optional
  group, \<^verbatim>\<open>\b\<close> and \<^verbatim>\<open>$\<close>. A matcher state is the code unit in front of the current
  position (if any) and the text from the position on. \<open>rmatch\<close> lists the states in
  which a match of the expression can end, in the order the backtracking matcher tries
  them: greedy repetitions longest first, the left alternative first, an optional
  group taken first and skipped second.
\<close>

datatype charClass = Space | Digit

fun inClass :: "charClass \<Rightarrow> char \<Rightarrow> bool" where
  "inClass Space c = isSpace c"
| "inClass Digit c = isDigit c"

datatype regex =
    RLit string
  | RPlus charClass
  | RStar charClass
  | RSeq regex regex
  | RAlt regex regex
  | ROpt regex
  | RWordB
  | REnd

type_synonym mstate = "char option \<times> string"

definition isWordAt :: "char option \<Rightarrow> bool" where
  "isWordAt p = (case p of None \<Rightarrow> False | Some c \<Rightarrow> isWordChar c)"

definition headOpt :: "string \<Rightarrow> char option" where
  "headOpt s = (case s of [] \<Rightarrow> None | c # _ \<Rightarrow> Some c)"

definition lastOpt :: "string \<Rightarrow> char option" where
  "lastOpt s = (if s = [] then None else Some (last s))"

text \<open>The state after consuming the first \<open>k\<close> code units of the text.\<close>

definition advance :: "nat \<Rightarrow> mstate \<Rightarrow> mstate" where
  "advance k st = (if k = 0 then st else (lastOpt (take k (snd st)), drop k (snd st)))"

text \<open>With the flag \<^verbatim>\<open>i\<close> code units are compared after canonicalisation to upper case.\<close>

definition litMatches :: "bool \<Rightarrow> string \<Rightarrow> string \<Rightarrow> bool" where
  "litMatches ic l s =
     (length l \<le> length s \<and>
      (if ic then toUpperCase (take (length l) s) = toUpperCase l else take (length l) s = l))"

fun rmatch :: "bool \<Rightarrow> regex \<Rightarrow> mstate \<Rightarrow> mstate list" where
  "rmatch ic (RLit l) st = (if litMatches ic l (snd st) then [advance (length l) st] else [])"
| "rmatch ic (RPlus c) st =
     map (\<lambda>k. advance k st) (rev [1 ..< Suc (length (takeWhile (inClass c) (snd st)))])"
| "rmatch ic (RStar c) st =
     map (\<lambda>k. advance k st) (rev [0 ..< Suc (length (takeWhile (inClass c) (snd st)))])"
| "rmatch ic (RSeq a b) st = concat (map (rmatch ic b) (rmatch ic a st))"
| "rmatch ic (RAlt a b) st = rmatch ic a st @ rmatch ic b st"
| "rmatch ic (ROpt a) st = rmatch ic a st @ [st]"
| "rmatch ic RWordB st = (if isWordAt (fst st) \<noteq> isWordAt (headOpt (snd st)) then [st] else [])"
| "rmatch ic REnd st = (if snd st = [] then [st] else [])"

text \<open>\<^verbatim>\<open>RegExp.prototype.test\<close> without the flag \<^verbatim>\<open>g\<close>: a match starts at some position.\<close>

fun searchFrom :: "bool \<Rightarrow> regex \<Rightarrow> char option \<Rightarrow> string \<Rightarrow> bool" where
  "searchFrom ic r p [] = (rmatch ic r (p, []) \<noteq> [])"
| "searchFrom ic r p (c # s) = (rmatch ic r (p, c # s) \<noteq> [] \<or> searchFrom ic r (Some c) s)"

definition regexTest :: "bool \<Rightarrow> regex \<Rightarrow> string \<Rightarrow> bool" where
  "regexTest ic r s = searchFrom ic r None s"

text \<open>
  The replacement text of \<^verbatim>\<open>String.prototype.replace\<close> is a template: \<^verbatim>\<open>$$\<close> stands
  for a dollar sign, \<^verbatim>\<open>$&\<close> for the matched text, \<^verbatim>\<open>$`\<close> for the text in front of
  the match and \<^verbatim>\<open>$'\<close> for the text after it. The expressions here have no capture group, so
  \<^verbatim>\<open>$1\<close> and the like stand for themselves.
\<close>

fun getSubstitution :: "string \<Rightarrow> string \<Rightarrow> string \<Rightarrow> string \<Rightarrow> string" where
  "getSubstitution matched passed after [] = []"
| "getSubstitution matched passed after [c] = [c]"
| "getSubstitution matched passed after (c # d # repl) =
     (if c = CHR ''$'' \<and> d = CHR ''$'' then CHR ''$'' # getSubstitution matched passed after repl
      else if c = CHR ''$'' \<and> d = CHR ''&'' then matched @ getSubstitution matched passed after repl
      else if c = CHR ''$'' \<and> d = CHR 0x60 then passed @ getSubstitution matched passed after repl
      else if c = CHR ''$'' \<and> d = CHR 0x27 then after @ getSubstitution matched passed after repl
      else c # getSubstitution matched passed after (d # repl))"

text \<open>
  \<^verbatim>\<open>s.replace(r, repl)\<close> for an expression with the flag \<^verbatim>\<open>g\<close>: every match, found
  from left to right, is replaced by the expanded template; the search goes on behind
  the match, one code unit further when the match is empty. \<open>passed\<close> is the part of the
  receiver in front of the current position.
\<close>

function replaceFrom :: "bool \<Rightarrow> regex \<Rightarrow> string \<Rightarrow> string \<Rightarrow> string \<Rightarrow> string" where
  "replaceFrom ic r repl passed s =
     (case rmatch ic r (lastOpt passed, s) of
        [] \<Rightarrow> (case s of [] \<Rightarrow> [] | c # cs \<Rightarrow> c # replaceFrom ic r repl (passed @ [c]) cs)
      | m # _ \<Rightarrow>
          (if length s - length (snd m) = 0
           then getSubstitution [] passed s repl
                @ (case s of [] \<Rightarrow> [] | c # cs \<Rightarrow> c # replaceFrom ic r repl (passed @ [c]) cs)
           else getSubstitution (take (length s - length (snd m)) s) passed (snd m) repl
                @ replaceFrom ic r repl (passed @ take (length s - length (snd m)) s)
                    (drop (length s - length (snd m)) s)))"
  by pat_completeness auto
termination
  by (relation "measure (\<lambda>(ic, r, repl, passed, s). length s)") auto

declare replaceFrom.simps [simp del]

definition replaceAll :: "bool \<Rightarrow> regex \<Rightarrow> string \<Rightarrow> string \<Rightarrow> string" where
  "replaceAll ic r repl s = replaceFrom ic r repl [] s"

section \<open>commands/executeQuery.ts: statement splitter\<close>

text \<open>
  The variables of the scanning loop of \<^verbatim>\<open>splitSqlStatements\<close>. \<open>stringChar\<close> is the
  empty text until a quote has been opened, as in the source.
\<close>

record split_state =
  statements :: "string list"
  current :: string
  inString :: bool
  stringChar :: string
  inLineComment :: bool
  inBlockComment :: bool

definition initialSplit :: split_state where
  "initialSplit = \<lparr> statements = [], current = [], inString = False, stringChar = [],
                     inLineComment = False, inBlockComment = False \<rparr>"

text \<open>
  One round of the loop, for the code unit \<open>c\<close> and the one behind it (\<open>nextChar\<close>,
  \<open>None\<close> at the end of the text); the branches stand in the order of the source. The
  second component tells whether the round skips the next code unit (\<^verbatim>\<open>i++\<close>).
\<close>

definition splitStep :: "split_state \<Rightarrow> char \<Rightarrow> char option \<Rightarrow> split_state \<times> bool" where
  "splitStep st c nextChar =
     (if \<not> inString st \<and> \<not> inBlockComment st \<and> c = CHR ''-'' \<and> nextChar = Some CHR ''-''
      then (st\<lparr>inLineComment := True, current := current st @ [c]\<rparr>, False)
      else if inLineComment st
      then (st\<lparr>current := current st @ [c],
                inLineComment := (if c = CHR 0x0A then False else True)\<rparr>, False)
      else if \<not> inString st \<and> \<not> inLineComment st \<and> c = CHR ''/'' \<and> nextChar = Some CHR ''*''
      then (st\<lparr>inBlockComment := True, current := current st @ [c]\<rparr>, False)
      else if inBlockComment st
      then (if c = CHR ''*'' \<and> nextChar = Some CHR ''/''
            then (st\<lparr>current := current st @ [c, CHR ''/''], inBlockComment := False\<rparr>, True)
            else (st\<lparr>current := current st @ [c]\<rparr>, False))
      else if \<not> inString st \<and> (c = CHR 0x27 \<or> c = CHR 0x22)
      then (st\<lparr>inString := True, stringChar := [c], current := current st @ [c]\<rparr>, False)
      else if inString st
      then (if [c] = stringChar st
            then (if map_option (\<lambda>n. [n]) nextChar = Some (stringChar st)
                  then (st\<lparr>current := current st @ [c] @ stringChar st\<rparr>, True)
                  else (st\<lparr>current := current st @ [c], inString := False\<rparr>, False))
            else (st\<lparr>current := current st @ [c]\<rparr>, False))
      else if c = CHR '';''
      then (st\<lparr>statements := (if trim (current st) \<noteq> [] then statements st @ [current st]
                                  else statements st),
                current := []\<rparr>, False)
      else (st\<lparr>current := current st @ [c]\<rparr>, False))"

fun splitLoop :: "split_state \<Rightarrow> string \<Rightarrow> split_state" where
  "splitLoop st [] = st"
| "splitLoop st (c # rest) =
     (case splitStep st c (headOpt rest) of
        (st', skip) \<Rightarrow> splitLoop st' (if skip then tl rest else rest))"

definition splitSqlStatements :: "string \<Rightarrow> string list" where
  "splitSqlStatements text =
     (let st = splitLoop initialSplit text
      in if trim (current st) \<noteq> [] then statements st @ [current st] else statements st)"

section \<open>commands/executeQuery.ts: comment stripper\<close>

record strip_state =
  sResult :: string
  sInString :: bool
  sStringChar :: string
  sInLineComment :: bool
  sInBlockComment :: bool

definition initialStrip :: strip_state where
  "initialStrip = \<lparr> sResult = [], sInString = False, sStringChar = [],
                     sInLineComment = False, sInBlockComment = False \<rparr>"

definition stripStep :: "strip_state \<Rightarrow> char \<Rightarrow> char option \<Rightarrow> strip_state \<times> bool" where
  "stripStep st c nextChar =
     (if \<not> sInString st \<and> \<not> sInBlockComment st \<and> c = CHR ''-'' \<and> nextChar = Some CHR ''-''
      then (st\<lparr>sInLineComment := True\<rparr>, True)
      else if sInLineComment st
      then (if c = CHR 0x0A then (st\<lparr>sInLineComment := False, sResult := sResult st @ [c]\<rparr>, False)
            else (st, False))
      else if \<not> sInString st \<and> \<not> sInLineComment st \<and> c = CHR ''/''
              \<and> nextChar = Some CHR ''*''
      then (st\<lparr>sInBlockComment := True\<rparr>, True)
      else if sInBlockComment st
      then (if c = CHR ''*'' \<and> nextChar = Some CHR ''/''
            then (st\<lparr>sInBlockComment := False\<rparr>, True)
            else (st, False))
      else if \<not> sInString st \<and> (c = CHR 0x27 \<or> c = CHR 0x22)
      then (st\<lparr>sInString := True, sStringChar := [c], sResult := sResult st @ [c]\<rparr>, False)
      else if sInString st
      then (if [c] = sStringChar st
            then (if map_option (\<lambda>n. [n]) nextChar = Some (sStringChar st)
                  then (st\<lparr>sResult := sResult st @ [c] @ sStringChar st\<rparr>, True)
                  else (st\<lparr>sResult := sResult st @ [c], sInString := False\<rparr>, False))
            else (st\<lparr>sResult := sResult st @ [c]\<rparr>, False))
      else (st\<lparr>sResult := sResult st @ [c]\<rparr>, False))"

fun stripLoop :: "strip_state \<Rightarrow> string \<Rightarrow> strip_state" where
  "stripLoop st [] = st"
| "stripLoop st (c # rest) =
     (case stripStep st c (headOpt rest) of
        (st', skip) \<Rightarrow> stripLoop st' (if skip then tl rest else rest))"

definition stripSqlComments :: "string \<Rightarrow> string" where
  "stripSqlComments sql = sResult (stripLoop initialStrip sql)"

section \<open>commands/executeQuery.ts: classification and row limit\<close>

text \<open>\<^verbatim>\<open>sql.replace(/\s+/g, ' ').trim().toUpperCase()\<close>, the first line of each test.\<close>

definition normalizeSql :: "string \<Rightarrow> string" where
  "normalizeSql sql = toUpperCase (trim (replaceAll False (RPlus Space) '' '' sql))"



definition isSelectQuery :: "string \<Rightarrow> bool" where
  "isSelectQuery sql =
     (startsWith (normalizeSql sql) ''SELECT '' \<or> startsWith (normalizeSql sql) ''WITH '')"

text \<open>The three expressions of \<^verbatim>\<open>hasLimitClause\<close>, each used with the flag \<^verbatim>\<open>i\<close>.\<close>

definition limitOffsetRegex :: regex where
  "limitOffsetRegex =
     RSeq RWordB (RSeq (RLit ''LIMIT'') (RSeq (RPlus Space) (RSeq (RPlus Digit)
       (RSeq (RStar Space)
         (RSeq (ROpt (RSeq (RLit ''OFFSET'') (RSeq (RPlus Space) (RPlus Digit))))
           (RSeq (RStar Space) REnd))))))"

definition limitRegex :: regex where
  "limitRegex =
     RSeq RWordB (RSeq (RLit ''LIMIT'') (RSeq (RPlus Space) (RSeq (RPlus Digit)
       (RSeq (RStar Space) REnd))))"

definition fetchRegex :: regex where
  "fetchRegex =
     RSeq RWordB (RSeq (RLit ''FETCH'') (RSeq (RPlus Space)
       (RSeq (RAlt (RLit ''FIRST'') (RLit ''NEXT'')) (RSeq (RPlus Space) (RSeq (RPlus Digit)
         (RSeq (RPlus Space) (RSeq (RLit ''ROW'') (RSeq (ROpt (RLit ''S'')) (RSeq (RPlus Space)
           (RSeq (RLit ''ONLY'') (RSeq (RStar Space) REnd)))))))))))"

definition hasLimitClause :: "string \<Rightarrow> bool" where
  "hasLimitClause sql =
     (regexTest True limitOffsetRegex (trim sql)
      \<or> regexTest True limitRegex (trim sql)
      \<or> regexTest True fetchRegex (trim sql))"

definition addLimitClause :: "string \<Rightarrow> int \<Rightarrow> string" where
  "addLimitClause sql limit =
     (let trimmedSql = trim sql;
          hadSemicolon = endsWith trimmedSql '';'';
          trimmedSql = (if hadSemicolon then trim (butlast trimmedSql) else trimmedSql)
      in trimmedSql @ '' LIMIT '' @ showInt limit @ (if hadSemicolon then '';'' else []))"

text \<open>
  The step of \<^verbatim>\<open>executeQueryCommand\<close> that caps the rows of a query: the statement
  that is sent, and whether a limit was added.
\<close>

definition limitForExecution :: "string \<Rightarrow> string \<times> bool" where
  "limitForExecution sql =
     (if isSelectQuery sql \<and> \<not> hasLimitClause sql then (addLimitClause sql 100, True)
      else (sql, False))"

section \<open>services/dataModificationService.ts: statements for a row change\<close>

datatype change_type = Update | Insert | Delete

text \<open>The text of the tag, as a template literal prints it.\<close>

fun typeName :: "change_type \<Rightarrow> string" where
  "typeName Update = ''update''"
| "typeName Insert = ''insert''"
| "typeName Delete = ''delete''"

text \<open>
  A row (\<^verbatim>\<open>Record<string, unknown>\<close>) is the list of its entries in the order
  \<^verbatim>\<open>Object.entries\<close> gives them, each key once. Reading a key that is absent gives
  \<^verbatim>\<open>undefined\<close>; this holds of the code for keys that are not names of properties of
  \<^verbatim>\<open>Object.prototype\<close> (a column called \<^verbatim>\<open>constructor\<close> would read the inherited
  property), and column names are taken to be such keys.
\<close>

type_synonym ('n, 'o) row = "(string \<times> ('n, 'o) jsval) list"

definition getField :: "('n, 'o) row \<Rightarrow> string \<Rightarrow> ('n, 'o) jsval" where
  "getField r k = (case map_of r k of None \<Rightarrow> JUndefined | Some v \<Rightarrow> v)"

definition quoteIdent :: "string \<Rightarrow> string" where
  "quoteIdent col = [CHR 0x22] @ col @ [CHR 0x22]"

definition findColumn :: "ColumnInfo list \<Rightarrow> string \<Rightarrow> ColumnInfo option" where
  "findColumn columns col = find (\<lambda>c. name c = col) columns"

text \<open>
  The callback of \<^verbatim>\<open>modifiedColumns.map\<close> in \<^verbatim>\<open>buildUpdateSql\<close>, from parameter index
  \<open>paramIndex\<close> on: the clauses, the parameters pushed, and the next index. It throws
  (\<open>Inl\<close>, with the message) at the first column when there is no new row to read.
\<close>

fun setClauses ::
  "('n, 'o) js_runtime \<Rightarrow> ColumnInfo list \<Rightarrow> ('n, 'o) row option \<Rightarrow> nat \<Rightarrow> string list
   \<Rightarrow> string + (string list \<times> ('n, 'o) jsval list \<times> nat)" where
  "setClauses rt columns newData paramIndex [] = Inr ([], [], paramIndex)"
| "setClauses rt columns newData paramIndex (col # cols) =
     (case newData of
        None \<Rightarrow> Inl (readOfUndefined rt col)
      | Some nd \<Rightarrow>
          (case setClauses rt columns newData (Suc paramIndex) cols of
             Inl e \<Rightarrow> Inl e
           | Inr (clauses, params, k) \<Rightarrow>
               Inr ((quoteIdent col @ '' = $'' @ showNat paramIndex) # clauses,
                    convertValue rt (getField nd col) (findColumn columns col) # params, k)))"

text \<open>
  The callback of \<^verbatim>\<open>primaryKeyColumns.map\<close>, shared by \<^verbatim>\<open>buildUpdateSql\<close> and
  \<^verbatim>\<open>buildDeleteSql\<close>: a key column whose original value is null or undefined gives
  \<^verbatim>\<open>IS NULL\<close> and no parameter.
\<close>

fun whereClauses ::
  "('n, 'o) js_runtime \<Rightarrow> ColumnInfo list \<Rightarrow> ('n, 'o) row option \<Rightarrow> nat \<Rightarrow> string list
   \<Rightarrow> string + (string list \<times> ('n, 'o) jsval list)" where
  "whereClauses rt columns originalData paramIndex [] = Inr ([], [])"
| "whereClauses rt columns originalData paramIndex (col # cols) =
     (case originalData of
        None \<Rightarrow> Inl (readOfUndefined rt col)
      | Some od \<Rightarrow>
          (if getField od col = JNull \<or> getField od col = JUndefined
           then (case whereClauses rt columns originalData paramIndex cols of
                   Inl e \<Rightarrow> Inl e
                 | Inr (clauses, params) \<Rightarrow> Inr ((quoteIdent col @ '' IS NULL'') # clauses, params))
           else (case whereClauses rt columns originalData (Suc paramIndex) cols of
                   Inl e \<Rightarrow> Inl e
                 | Inr (clauses, params) \<Rightarrow>
                     Inr ((quoteIdent col @ '' = $'' @ showNat paramIndex) # clauses,
                          convertValue rt (getField od col) (findColumn columns col) # params))))"

definition buildUpdateSql ::
  "('n, 'o) js_runtime \<Rightarrow> string \<Rightarrow> ('n, 'o) row option \<Rightarrow> ('n, 'o) row option
   \<Rightarrow> string list option \<Rightarrow> string list \<Rightarrow> ColumnInfo list
   \<Rightarrow> string + (string \<times> ('n, 'o) jsval list)" where
  "buildUpdateSql rt tableName originalData newData modifiedColumns primaryKeyColumns columns =
     (case modifiedColumns of
        None \<Rightarrow> Inl (readOfUndefined rt ''map'')
      | Some mcs \<Rightarrow>
          (case setClauses rt columns newData 1 mcs of
             Inl e \<Rightarrow> Inl e
           | Inr (sets, setParams, k) \<Rightarrow>
               (case whereClauses rt columns originalData k primaryKeyColumns of
                  Inl e \<Rightarrow> Inl e
                | Inr (wheres, whereParams) \<Rightarrow>
                    Inr (''UPDATE '' @ tableName @ '' SET '' @ join '', '' sets
                           @ '' WHERE '' @ join '' AND '' wheres,
                         setParams @ whereParams))))"

text \<open>
  The loop of \<^verbatim>\<open>buildInsertSql\<close> over the entries of the new row: the quoted column
  names, the parameters and the placeholders of the entries that are neither undefined
  nor the empty string.
\<close>

fun insertEntries ::
  "('n, 'o) js_runtime \<Rightarrow> ColumnInfo list \<Rightarrow> nat \<Rightarrow> ('n, 'o) row
   \<Rightarrow> string list \<times> ('n, 'o) jsval list \<times> string list" where
  "insertEntries rt columns paramIndex [] = ([], [], [])"
| "insertEntries rt columns paramIndex ((key, v) # entries) =
     (if v \<noteq> JUndefined \<and> v \<noteq> JStr []
      then (case insertEntries rt columns (Suc paramIndex) entries of
              (columnNames, params, placeholders) \<Rightarrow>
                (quoteIdent key # columnNames,
                 convertValue rt v (findColumn columns key) # params,
                 (''$'' @ showNat paramIndex) # placeholders))
      else insertEntries rt columns paramIndex entries)"

definition buildInsertSql ::
  "('n, 'o) js_runtime \<Rightarrow> string \<Rightarrow> ('n, 'o) row option \<Rightarrow> ColumnInfo list
   \<Rightarrow> string + (string \<times> ('n, 'o) jsval list)" where
  "buildInsertSql rt tableName newData columns =
     (case newData of
        None \<Rightarrow> Inl (entriesOfUndefined rt)
      | Some nd \<Rightarrow>
          (case insertEntries rt columns 1 nd of
             (columnNames, params, placeholders) \<Rightarrow>
               Inr (''INSERT INTO '' @ tableName @ '' ('' @ join '', '' columnNames
                      @ '') VALUES ('' @ join '', '' placeholders @ '')'',
                    params)))"

definition buildDeleteSql ::
  "('n, 'o) js_runtime \<Rightarrow> string \<Rightarrow> ('n, 'o) row option \<Rightarrow> string list \<Rightarrow> ColumnInfo list
   \<Rightarrow> string + (string \<times> ('n, 'o) jsval list)" where
  "buildDeleteSql rt tableName originalData primaryKeyColumns columns =
     (case whereClauses rt columns originalData 1 primaryKeyColumns of
        Inl e \<Rightarrow> Inl e
      | Inr (wheres, params) \<Rightarrow>
          Inr (''DELETE FROM '' @ tableName @ '' WHERE '' @ join '' AND '' wheres, params))"

section \<open>services/dataModificationService.ts: display text of a statement\<close>

text \<open>\<^verbatim>\<open>s.replace(/'/g, "''")\<close>.\<close>

definition escapeQuotes :: "string \<Rightarrow> string" where
  "escapeQuotes s = replaceAll False (RLit [CHR 0x27]) [CHR 0x27, CHR 0x27] s"

definition formatValueForSql :: "('n, 'o) js_runtime \<Rightarrow> ('n, 'o) jsval \<Rightarrow> string" where
  "formatValueForSql rt v =
     (case v of
        JNull \<Rightarrow> ''NULL''
      | JUndefined \<Rightarrow> ''NULL''
      | JBool b \<Rightarrow> (if b then ''TRUE'' else ''FALSE'')
      | JNum n \<Rightarrow> String_of_number rt n
      | JObj ob \<Rightarrow> [CHR 0x27] @ escapeQuotes (JSON_stringify rt ob) @ [CHR 0x27]
      | JStr s \<Rightarrow> [CHR 0x27] @ escapeQuotes s @ [CHR 0x27])"

text \<open>The expression \<^verbatim>\<open>new RegExp(`\\$${i}\\b`, 'g')\<close>.\<close>

definition placeholderRegex :: "nat \<Rightarrow> regex" where
  "placeholderRegex i = RSeq (RLit (''$'' @ showNat i)) RWordB"

text \<open>
  The loop of \<^verbatim>\<open>formatSqlWithParams\<close>, for \<open>i\<close> from the number of parameters down
  to 1.
\<close>

fun formatLoop ::
  "('n, 'o) js_runtime \<Rightarrow> ('n, 'o) jsval list \<Rightarrow> nat \<Rightarrow> string \<Rightarrow> string" where
  "formatLoop rt params 0 formattedSql = formattedSql"
| "formatLoop rt params (Suc k) formattedSql =
     formatLoop rt params k
       (replaceAll False (placeholderRegex (Suc k)) (formatValueForSql rt (params ! k))
          formattedSql)"

definition formatSqlWithParams ::
  "('n, 'o) js_runtime \<Rightarrow> string \<Rightarrow> ('n, 'o) jsval list \<Rightarrow> string" where
  "formatSqlWithParams rt sql params = formatLoop rt params (length params) sql"

section \<open>services/dataModificationService.ts: applying the changes\<close>

text \<open>The optional fields of the interface are \<open>None\<close> when \<^verbatim>\<open>undefined\<close>.\<close>

record ('n, 'o) RowChange =
  type :: change_type
  rowIndex :: int
  originalData :: "('n, 'o) row option"
  newData :: "('n, 'o) row option"
  modifiedColumns :: "string list option"

record ModificationResult =
  success :: bool
  affectedRows :: nat
  errors :: "string list"
  executedSql :: "string list"

text \<open>
  \<^verbatim>\<open>connection.pool.query(sql, params)\<close>: the database is a state \<open>'db\<close>; a query
  either fails with a message (\<open>Inl\<close>; the handler reads \<^verbatim>\<open>error.message\<close>) or returns
  its \<^verbatim>\<open>rowCount\<close>, which can be null.
\<close>

type_synonym ('n, 'o, 'db) pool_query =
  "'db \<Rightarrow> string \<Rightarrow> ('n, 'o) jsval list \<Rightarrow> (string + nat option) \<times> 'db"

text \<open>The comparator given to \<^verbatim>\<open>sort\<close>.\<close>

fun order :: "change_type \<Rightarrow> int" where
  "order Delete = 0"
| "order Update = 1"
| "order Insert = 2"

definition compareChanges :: "('n, 'o) RowChange \<Rightarrow> ('n, 'o) RowChange \<Rightarrow> int" where
  "compareChanges a b =
     (if order (type a) \<noteq> order (type b) then order (type a) - order (type b)
      else if type a = Delete then rowIndex b - rowIndex a
      else rowIndex a - rowIndex b)"

text \<open>
  \<^verbatim>\<open>Array.prototype.sort\<close> is a stable sort, and \<open>compareChanges\<close> is a consistent
  comparator, so the sorted array is determined by the comparator: it is computed here
  by a stable insertion sort.
\<close>

fun insertSorted :: "('a \<Rightarrow> 'a \<Rightarrow> int) \<Rightarrow> 'a \<Rightarrow> 'a list \<Rightarrow> 'a list" where
  "insertSorted cmp x [] = [x]"
| "insertSorted cmp x (y # ys) =
     (if cmp x y \<le> 0 then x # y # ys else y # insertSorted cmp x ys)"

definition sortStable :: "('a \<Rightarrow> 'a \<Rightarrow> int) \<Rightarrow> 'a list \<Rightarrow> 'a list" where
  "sortStable cmp xs = foldr (insertSorted cmp) xs []"

text \<open>The \<^verbatim>\<open>switch\<close> on the type of the change.\<close>

definition buildSql ::
  "('n, 'o) js_runtime \<Rightarrow> string \<Rightarrow> string list \<Rightarrow> ColumnInfo list \<Rightarrow> ('n, 'o) RowChange
   \<Rightarrow> string + (string \<times> ('n, 'o) jsval list)" where
  "buildSql rt tableName primaryKeyColumns cols change =
     (case type change of
        Update \<Rightarrow> buildUpdateSql rt tableName (originalData change) (newData change)
                    (modifiedColumns change) primaryKeyColumns cols
      | Insert \<Rightarrow> buildInsertSql rt tableName (newData change) cols
      | Delete \<Rightarrow> buildDeleteSql rt tableName (originalData change) primaryKeyColumns cols)"

text \<open>The \<^verbatim>\<open>catch\<close> block of the loop.\<close>

definition recordError ::
  "ModificationResult \<Rightarrow> ('n, 'o) RowChange \<Rightarrow> string \<Rightarrow> ModificationResult" where
  "recordError res change message =
     res\<lparr> success := False,
          errors := errors res
            @ [typeName (type change) @ '' row '' @ showInt (rowIndex change) @ '': '' @ message] \<rparr>"

text \<open>
  One round of the loop over the sorted changes. The state is the result so far, the
  database, and the statements sent to \<^verbatim>\<open>pool.query\<close> so far.
\<close>

definition applyChange ::
  "('n, 'o) js_runtime \<Rightarrow> ('n, 'o, 'db) pool_query \<Rightarrow> string \<Rightarrow> string list \<Rightarrow> ColumnInfo list
   \<Rightarrow> ('n, 'o) RowChange
   \<Rightarrow> ModificationResult \<times> 'db \<times> (string \<times> ('n, 'o) jsval list) list
   \<Rightarrow> ModificationResult \<times> 'db \<times> (string \<times> ('n, 'o) jsval list) list" where
  "applyChange rt query tableName primaryKeyColumns cols change state =
     (case state of (res, db, sent) \<Rightarrow>
        (case buildSql rt tableName primaryKeyColumns cols change of
           Inl message \<Rightarrow> (recordError res change message, db, sent)
         | Inr (sql, params) \<Rightarrow>
             (case query db sql params of
                (Inl message, db') \<Rightarrow>
                  (recordError
                     (res\<lparr>executedSql := executedSql res @ [formatSqlWithParams rt sql params]\<rparr>)
                     change message,
                   db', sent @ [(sql, params)])
              | (Inr queryRowCount, db') \<Rightarrow>
                  (res\<lparr> executedSql := executedSql res @ [formatSqlWithParams rt sql params],
                        affectedRows := affectedRows res
                          + (case queryRowCount of None \<Rightarrow> 0 | Some n \<Rightarrow> n) \<rparr>,
                   db', sent @ [(sql, params)]))))"

fun runChanges ::
  "('n, 'o) js_runtime \<Rightarrow> ('n, 'o, 'db) pool_query \<Rightarrow> string \<Rightarrow> string list \<Rightarrow> ColumnInfo list
   \<Rightarrow> ('n, 'o) RowChange list
   \<Rightarrow> ModificationResult \<times> 'db \<times> (string \<times> ('n, 'o) jsval list) list
   \<Rightarrow> ModificationResult \<times> 'db \<times> (string \<times> ('n, 'o) jsval list) list" where
  "runChanges rt query tableName primaryKeyColumns cols [] state = state"
| "runChanges rt query tableName primaryKeyColumns cols (change # changes) state =
     runChanges rt query tableName primaryKeyColumns cols changes
       (applyChange rt query tableName primaryKeyColumns cols change state)"

text \<open>
  \<^verbatim>\<open>applyChanges\<close>. \<open>connection\<close> is what the connection manager resolves (the
  connection of the given id, or the active one), as the query function of its pool;
  \<open>None\<close> when there is none. The result comes with the database afterwards and the
  statements that were sent to it, in order.
\<close>

definition applyChanges ::
  "('n, 'o) js_runtime \<Rightarrow> ('n, 'o, 'db) pool_query option \<Rightarrow> 'db \<Rightarrow> ('n, 'o) RowChange list
   \<Rightarrow> ColumnInfo list \<Rightarrow> string \<Rightarrow> string list
   \<Rightarrow> ModificationResult \<times> 'db \<times> (string \<times> ('n, 'o) jsval list) list" where
  "applyChanges rt connection db changes cols tableName primaryKeyColumns =
     (case connection of
        None \<Rightarrow>
          (\<lparr> success = False, affectedRows = 0, errors = [''No active database connection''],
             executedSql = [] \<rparr>, db, [])
      | Some query \<Rightarrow>
          if length primaryKeyColumns = 0
          then (\<lparr> success = False, affectedRows = 0,
                  errors = [''Cannot modify data without primary key columns defined''],
                  executedSql = [] \<rparr>, db, [])
          else runChanges rt query tableName primaryKeyColumns cols
                 (sortStable compareChanges changes)
                 (\<lparr> success = True, affectedRows = 0, errors = [], executedSql = [] \<rparr>, db, []))"

section \<open>services/queryExecutor.ts\<close>

record ActiveQuery =
  client :: nat
  pid :: nat
  connectionId :: string
  cancelled :: bool

record 'r QueryResult =
  columns :: "ColumnInfo list"
  rows :: "'r list"
  rowCount :: nat
  duration :: int
  error :: "string option"

record QueryHistoryItem =
  item_id :: string
  item_sql :: string
  item_connectionId :: string
  item_timestamp :: int
  item_duration :: int
  item_rowCount :: nat
  item_error :: "string option"

text \<open>What the driver returns for a query: fields, rows and row count can be missing.\<close>

record 'r PgQueryResult =
  pg_fields :: "(string \<times> nat) list option"
  pg_rows :: "'r list option"
  pg_rowCount :: "nat option"

text \<open>
  The state an execution works on: the fields \<open>queryHistory\<close> and \<open>activeQuery\<close> of the
  executor, the clients of the pool that are checked out and not yet released, and the
  context key \<^verbatim>\<open>pgsql.queryRunning\<close> of the editor.
\<close>

record executor =
  queryHistory :: "QueryHistoryItem list"
  activeQuery :: "ActiveQuery option"
  checkedOut :: "nat list"
  queryRunning :: bool

text \<open>
  What the environment does during one call of \<^verbatim>\<open>execute\<close>: the clock at the start
  and at the end, the generated id and time stamp of the history item, the message of
  the error of a connect that times out, the outcomes of \<^verbatim>\<open>pool.connect()\<close> when the
  pool has a client to give, of the query for the backend process id and of the statement
  itself (\<open>Inl\<close> with the message of the error thrown), and whether
  \<^verbatim>\<open>cancelCurrentQuery\<close> runs while the statement is awaited (with what that call
  meets: whether the connection is found, and the outcome of sending the cancel request).
\<close>

record 'r exec_env =
  startTime :: int
  endTime :: int
  newId :: string
  newTimestamp :: int
  connectTimeout :: string
  connectOutcome :: "string + nat"
  pidOutcome :: "string + nat"
  queryOutcome :: "string + 'r PgQueryResult"
  cancelDuring :: "(bool \<times> (string + unit)) option"

text \<open>
  \<^verbatim>\<open>pool.connect()\<close>. The connection manager creates the pool with \<^verbatim>\<open>max: 5\<close> and
  \<^verbatim>\<open>connectionTimeoutMillis: 10000\<close>: while five clients are checked out the pool has
  none to give, and the call is rejected when the time is up.
\<close>

definition poolMax :: nat where
  "poolMax = 5"

definition poolConnect :: "'r exec_env \<Rightarrow> executor \<Rightarrow> string + nat" where
  "poolConnect env st =
     (if length (checkedOut st) < poolMax then connectOutcome env else Inl (connectTimeout env))"

definition maxHistoryItems :: nat where
  "maxHistoryItems = 100"

definition addToHistory :: "QueryHistoryItem \<Rightarrow> executor \<Rightarrow> executor" where
  "addToHistory item st =
     st\<lparr>queryHistory :=
          (if length (item # queryHistory st) > maxHistoryItems
           then butlast (item # queryHistory st) else item # queryHistory st)\<rparr>"

definition getDataTypeName :: "nat \<Rightarrow> string" where
  "getDataTypeName oid =
     (case map_of [(16, ''boolean''), (20, ''bigint''), (21, ''smallint''), (23, ''integer''),
                   (25, ''text''), (700, ''real''), (701, ''double precision''),
                   (1043, ''varchar''), (1082, ''date''), (1083, ''time''),
                   (1114, ''timestamp''), (1184, ''timestamptz''), (2950, ''uuid''),
                   (3802, ''jsonb''), (114, ''json'')] oid of
        Some n \<Rightarrow> n | None \<Rightarrow> ''unknown'')"

text \<open>
  \<^verbatim>\<open>cancelCurrentQuery\<close>. The flag is set before the cancel request is sent;
  \<open>connectionFound\<close> and \<open>sendOutcome\<close> are what \<^verbatim>\<open>getConnection\<close> and
  \<^verbatim>\<open>pool.query('SELECT pg_cancel_backend($1)', [pid])\<close> give.
\<close>

definition cancelCurrentQuery :: "executor \<Rightarrow> bool \<Rightarrow> string + unit \<Rightarrow> bool \<times> executor" where
  "cancelCurrentQuery st connectionFound sendOutcome =
     (case activeQuery st of
        None \<Rightarrow> (False, st)
      | Some aq \<Rightarrow>
          if cancelled aq then (False, st)
          else (connectionFound \<and> \<not> isl sendOutcome,
                st\<lparr>activeQuery := Some (aq\<lparr>cancelled := True\<rparr>)\<rparr>))"

text \<open>The outer \<^verbatim>\<open>finally\<close> block of \<^verbatim>\<open>execute\<close>.\<close>

definition releaseAndClear :: "nat option \<Rightarrow> executor \<Rightarrow> executor" where
  "releaseAndClear cl st =
     st\<lparr> checkedOut := (case cl of None \<Rightarrow> checkedOut st | Some c \<Rightarrow> remove1 c (checkedOut st)),
         activeQuery := None,
         queryRunning := False \<rparr>"

text \<open>
  The outer \<^verbatim>\<open>catch\<close> block of \<^verbatim>\<open>execute\<close>, followed by the \<^verbatim>\<open>finally\<close> block:
  \<open>Inl\<close> when the error is thrown on to the caller, \<open>Inr\<close> when a result is returned.
\<close>

definition handleError ::
  "'r exec_env \<Rightarrow> string \<Rightarrow> string \<Rightarrow> nat option \<Rightarrow> string \<Rightarrow> executor
   \<Rightarrow> (string + 'r QueryResult) \<times> executor" where
  "handleError env sql connId cl errorMessage st =
     (let wasCancelled =
            ((case activeQuery st of None \<Rightarrow> False | Some aq \<Rightarrow> cancelled aq)
             \<or> includes_str errorMessage ''canceling statement due to user request''
             \<or> includes_str errorMessage ''57014'');
          res = \<lparr> columns = [], rows = [], rowCount = 0, duration = endTime env - startTime env,
                  error = Some (if wasCancelled then ''Query cancelled by user''
                                else errorMessage) \<rparr>;
          st' = (if \<not> wasCancelled
                 then addToHistory
                        \<lparr> item_id = newId env, item_sql = sql, item_connectionId = connId,
                          item_timestamp = newTimestamp env,
                          item_duration = endTime env - startTime env, item_rowCount = 0,
                          item_error = Some errorMessage \<rparr> st
                 else st)
      in (if \<not> wasCancelled then Inl errorMessage else Inr res, releaseAndClear cl st'))"

text \<open>
  \<^verbatim>\<open>execute\<close>. \<open>connection\<close> is the id of the connection the manager resolves, \<open>None\<close>
  when there is none.
\<close>

definition execute ::
  "'r exec_env \<Rightarrow> string \<Rightarrow> string option \<Rightarrow> executor
   \<Rightarrow> (string + 'r QueryResult) \<times> executor" where
  "execute env sql connection st =
     (case connection of
        None \<Rightarrow> (Inl ''No active database connection'', st)
      | Some connId \<Rightarrow>
          (case poolConnect env st of
             Inl e \<Rightarrow> handleError env sql connId None e st
           | Inr cl \<Rightarrow>
               (case pidOutcome env of
                  Inl e \<Rightarrow> handleError env sql connId (Some cl) e (st\<lparr>checkedOut := cl # checkedOut st\<rparr>)
                | Inr p \<Rightarrow>
                    (let running = st\<lparr> checkedOut := cl # checkedOut st,
                                       activeQuery := Some \<lparr> client = cl, pid = p,
                                                            connectionId = connId,
                                                            cancelled = False \<rparr>,
                                       queryRunning := True \<rparr>;
                         awaited = (case cancelDuring env of
                                      None \<Rightarrow> running
                                    | Some (connectionFound, sendOutcome) \<Rightarrow>
                                        snd (cancelCurrentQuery running connectionFound sendOutcome))
                     in case queryOutcome env of
                          Inl e \<Rightarrow> handleError env sql connId (Some cl) e awaited
                        | Inr pgResult \<Rightarrow>
                            (Inr \<lparr> columns = (case pg_fields pgResult of
                                                 None \<Rightarrow> []
                                               | Some fs \<Rightarrow>
                                                   map (\<lambda>(fieldName, dataTypeID).
                                                          \<lparr> name = fieldName,
                                                            dataType = getDataTypeName dataTypeID,
                                                            dataTypeId = dataTypeID \<rparr>) fs),
                                   rows = (case pg_rows pgResult of None \<Rightarrow> [] | Some rs \<Rightarrow> rs),
                                   rowCount = (case pg_rowCount pgResult of None \<Rightarrow> 0 | Some n \<Rightarrow> n),
                                   duration = endTime env - startTime env,
                                   error = None \<rparr>,
                             releaseAndClear (Some cl)
                               (addToHistory
                                  \<lparr> item_id = newId env, item_sql = sql,
                                    item_connectionId = connId,
                                    item_timestamp = newTimestamp env,
                                    item_duration = endTime env - startTime env,
                                    item_rowCount = (case pg_rowCount pgResult of
                                                       None \<Rightarrow> 0 | Some n \<Rightarrow> n),
                                    item_error = None \<rparr> awaited))))))"

section \<open>Notions for stating the properties of the splitter\<close>

text \<open>The scanner is outside of strings and comments.\<close>

definition outside :: "split_state \<Rightarrow> bool" where
  "outside st = (\<not> inString st \<and> \<not> inLineComment st \<and> \<not> inBlockComment st)"

text \<open>A code unit that opens no string and no comment and is no semicolon.\<close>

definition plainChar :: "char \<Rightarrow> bool" where
  "plainChar c = (c \<notin> set [CHR 0x27, CHR 0x22, CHR '';'', CHR ''-'', CHR ''/''])"

section \<open>Notions for stating the properties of the classifier\<close>

text \<open>The words of a text: its maximal runs of code units that are not white space.\<close>

fun sqlWords :: "string \<Rightarrow> string list" where
  "sqlWords [] = []"
| "sqlWords (c # s) =
     (if isSpace c then sqlWords s
      else if s = [] \<or> isSpace (hd s) then [c] # sqlWords s
      else (case sqlWords s of [] \<Rightarrow> [[c]] | w # ws \<Rightarrow> (c # w) # ws))"


text \<open>The first step of \<open>normalizeSql\<close>, and trimming at the right end only.\<close>

abbreviation "collapse passed s \<equiv> replaceFrom False (RPlus Space) '' '' passed s"



section \<open>Notions for stating the properties of the reconciler\<close>

text \<open>
  The three groups of the execution order: the deletes by descending row index, the
  updates and the inserts by ascending row index. \<open>sort_key\<close> is stable: changes with the
  same row index keep the order in which they were supplied.
\<close>

definition deletesOf :: "('n, 'o) RowChange list \<Rightarrow> ('n, 'o) RowChange list" where
  "deletesOf cs = sort_key (\<lambda>c. - rowIndex c) (filter (\<lambda>c. type c = Delete) cs)"

definition updatesOf :: "('n, 'o) RowChange list \<Rightarrow> ('n, 'o) RowChange list" where
  "updatesOf cs = sort_key rowIndex (filter (\<lambda>c. type c = Update) cs)"

definition insertsOf :: "('n, 'o) RowChange list \<Rightarrow> ('n, 'o) RowChange list" where
  "insertsOf cs = sort_key rowIndex (filter (\<lambda>c. type c = Insert) cs)"

text \<open>
  The statements built for a list of changes, in order; a change whose statement cannot
  be built has none.
\<close>

definition statementsFor ::
  "('n, 'o) js_runtime \<Rightarrow> string \<Rightarrow> string list \<Rightarrow> ColumnInfo list \<Rightarrow> ('n, 'o) RowChange list
   \<Rightarrow> (string \<times> ('n, 'o) jsval list) list" where
  "statementsFor rt tableName primaryKeyColumns cols cs =
     concat (map (\<lambda>c. case buildSql rt tableName primaryKeyColumns cols c of
                         Inl _ \<Rightarrow> [] | Inr statement \<Rightarrow> [statement]) cs)"

text \<open>
  What happens to each change of a list in turn, from a database state on: \<open>Inl\<close> with the
  message when building or running its statement fails, \<open>Inr\<close> with the reported row count
  (0 for null) when its statement ran.
\<close>

fun changeOutcomes ::
  "('n, 'o) js_runtime \<Rightarrow> ('n, 'o, 'db) pool_query \<Rightarrow> string \<Rightarrow> string list \<Rightarrow> ColumnInfo list
   \<Rightarrow> ('n, 'o) RowChange list \<Rightarrow> 'db \<Rightarrow> (string + nat) list" where
  "changeOutcomes rt query tableName primaryKeyColumns cols [] db = []"
| "changeOutcomes rt query tableName primaryKeyColumns cols (c # cs) db =
     (case buildSql rt tableName primaryKeyColumns cols c of
        Inl message \<Rightarrow> Inl message # changeOutcomes rt query tableName primaryKeyColumns cols cs db
      | Inr (sql, params) \<Rightarrow>
          (case query db sql params of
             (Inl message, db') \<Rightarrow>
               Inl message # changeOutcomes rt query tableName primaryKeyColumns cols cs db'
           | (Inr n, db') \<Rightarrow>
               Inr (case n of None \<Rightarrow> 0 | Some k \<Rightarrow> k)
                 # changeOutcomes rt query tableName primaryKeyColumns cols cs db'))"

text \<open>The error entries for the failed changes, and the sum of the reported row counts.\<close>

definition errorLines :: "('n, 'o) RowChange list \<Rightarrow> (string + nat) list \<Rightarrow> string list" where
  "errorLines cs outcomes =
     concat (map2 (\<lambda>c outcome. case outcome of
                      Inl message \<Rightarrow> [typeName (type c) @ '' row '' @ showInt (rowIndex c)
                                        @ '': '' @ message]
                    | Inr _ \<Rightarrow> []) cs outcomes)"

definition reportedRows :: "(string + nat) list \<Rightarrow> nat" where
  "reportedRows outcomes = sum_list (map (\<lambda>outcome. case outcome of Inl _ \<Rightarrow> 0 | Inr n \<Rightarrow> n) outcomes)"

section \<open>Concrete inputs for evaluation\<close>

definition sampleColumns :: "ColumnInfo list" where
  "sampleColumns = [\<lparr>name = ''id'', dataType = ''integer'', dataTypeId = 23\<rparr>,
                    \<lparr>name = ''name'', dataType = ''text'', dataTypeId = 25\<rparr>]"

definition sampleInsert :: "int \<Rightarrow> string \<Rightarrow> (int option, unit) RowChange" where
  "sampleInsert i v = \<lparr> type = Insert, rowIndex = i, originalData = None,
                        newData = Some [(''name'', JStr v)], modifiedColumns = None \<rparr>"

definition sampleDelete :: "int \<Rightarrow> string \<Rightarrow> (int option, unit) RowChange" where
  "sampleDelete i k = \<lparr> type = Delete, rowIndex = i, originalData = Some [(''id'', JStr k)],
                        newData = None, modifiedColumns = None \<rparr>"

definition sampleUpdate :: "int \<Rightarrow> string \<Rightarrow> string \<Rightarrow> (int option, unit) RowChange" where
  "sampleUpdate i k v = \<lparr> type = Update, rowIndex = i, originalData = Some [(''id'', JStr k)],
                          newData = Some [(''id'', JStr k), (''name'', JStr v)],
                          modifiedColumns = Some [''name''] \<rparr>"

text \<open>A pool whose second query fails; the database state counts the queries.\<close>

definition samplePool :: "(int option, unit, nat) pool_query" where
  "samplePool db sql params = (if db = 1 then Inl ''boom'' else Inr (Some 1), Suc db)"

text \<open>
  An execution that is cancelled while its statement runs, one that succeeds, one that
  is marked cancelled while its statement still succeeds, and an executor at rest.
\<close>

definition sampleCancelEnv :: "unit exec_env" where
  "sampleCancelEnv = \<lparr> startTime = 1000, endTime = 1250, newId = ''query_1250_abc'',
                  newTimestamp = 1250,
                  connectTimeout = ''timeout exceeded when trying to connect'',
                  connectOutcome = Inr 7, pidOutcome = Inr 4242,
                  queryOutcome = Inl ''canceling statement due to user request'',
                  cancelDuring = Some (True, Inr ()) \<rparr>"

definition idleExecutor :: executor where
  "idleExecutor = \<lparr> queryHistory = [], activeQuery = None, checkedOut = [], queryRunning = False \<rparr>"

definition sampleSuccessEnv :: "unit exec_env" where
  "sampleSuccessEnv = \<lparr> startTime = 2000, endTime = 2003, newId = ''query_2003_def'',
                  newTimestamp = 2003,
                  connectTimeout = ''timeout exceeded when trying to connect'',
                  connectOutcome = Inr 8, pidOutcome = Inr 4243,
                  queryOutcome = Inr \<lparr> pg_fields = Some [(''n'', 23)], pg_rows = Some [()],
                                        pg_rowCount = Some 1 \<rparr>,
                  cancelDuring = None \<rparr>"

definition sampleRaceEnv :: "unit exec_env" where
  "sampleRaceEnv = sampleSuccessEnv\<lparr>cancelDuring := Some (True, Inr ())\<rparr>"

section \<open>Value coercion: properties\<close>

lemma toLowerCase_simps:
  "toLowerCase [] = []"
  "toLowerCase (c # s) = lowerChar c # toLowerCase s"
  by (simp_all add: toLowerCase_def)

lemma toUpperCase_simps:
  "toUpperCase [] = []"
  "toUpperCase (c # s) = upperChar c # toUpperCase s"
  by (simp_all add: toUpperCase_def)

lemmas char_case_defs = lowerChar_def upperChar_def upperLetters_def lowerLetters_def

text \<open>
  C9. An empty string, null and undefined coerce to null, whatever the column. For a
  column of type boolean, a string that reads "true" or "false" in any letter case
  becomes the boolean, and every other string is returned as it is. For a column of type
  text, a non-empty string is returned as it is. In particular
  convertValue("true", boolean) is true, convertValue("not-a-bool", boolean) is
  "not-a-bool" and convertValue("", text) is null.
\<close>

theorem convertValue_coercion:
  "(convertValue rt JNull column = JNull
      \<and> convertValue rt JUndefined column = JNull
      \<and> convertValue rt (JStr []) column = JNull)
   \<and> (dataType b = ''boolean'' \<and> toLowerCase s1 = ''true'' \<longrightarrow>
        convertValue rt (JStr s1) (Some b) = JBool True)
   \<and> (dataType b = ''boolean'' \<and> toLowerCase s2 = ''false'' \<longrightarrow>
        convertValue rt (JStr s2) (Some b) = JBool False)
   \<and> (dataType b = ''boolean'' \<and> toLowerCase s3 \<noteq> ''true'' \<and> toLowerCase s3 \<noteq> ''false'' \<longrightarrow>
        convertValue rt (JStr s3) (Some b) = (if s3 = [] then JNull else JStr s3))
   \<and> (dataType t = ''text'' \<and> s4 \<noteq> [] \<longrightarrow> convertValue rt (JStr s4) (Some t) = JStr s4)
   \<and> (dataType b = ''boolean'' \<longrightarrow> convertValue rt (JStr ''true'') (Some b) = JBool True)
   \<and> (dataType b = ''boolean'' \<longrightarrow>
        convertValue rt (JStr ''not-a-bool'') (Some b) = JStr ''not-a-bool'')
   \<and> (dataType t = ''text'' \<longrightarrow> convertValue rt (JStr []) (Some t) = JNull)"
proof -
  have lower_true: "toLowerCase ''true'' = ''true''"
    by (simp add: toLowerCase_simps char_case_defs)
  have lower_nab: "toLowerCase ''not-a-bool'' = ''not-a-bool''"
    by (simp add: toLowerCase_simps char_case_defs)
  have empties: "convertValue rt JNull column = JNull
      \<and> convertValue rt JUndefined column = JNull
      \<and> convertValue rt (JStr []) column = JNull"
    by (simp add: convertValue_def)
  have bool_true: "dataType b = ''boolean'' \<and> toLowerCase s1 = ''true'' \<longrightarrow>
        convertValue rt (JStr s1) (Some b) = JBool True"
    by (auto simp add: convertValue_def columnTypeIs_def toLowerCase_def)
  have bool_false: "dataType b = ''boolean'' \<and> toLowerCase s2 = ''false'' \<longrightarrow>
        convertValue rt (JStr s2) (Some b) = JBool False"
    by (auto simp add: convertValue_def columnTypeIs_def toLowerCase_def)
  have bool_other:
    "dataType b = ''boolean'' \<and> toLowerCase s3 \<noteq> ''true'' \<and> toLowerCase s3 \<noteq> ''false'' \<longrightarrow>
        convertValue rt (JStr s3) (Some b) = (if s3 = [] then JNull else JStr s3)"
    by (simp add: convertValue_def columnTypeIs_def numericTypes_def)
  have text_col: "dataType t = ''text'' \<and> s4 \<noteq> [] \<longrightarrow>
        convertValue rt (JStr s4) (Some t) = JStr s4"
    by (simp add: convertValue_def columnTypeIs_def numericTypes_def)
  have ex1: "dataType b = ''boolean'' \<longrightarrow>
        convertValue rt (JStr ''true'') (Some b) = JBool True"
    by (simp add: convertValue_def columnTypeIs_def lower_true)
  have ex2: "dataType b = ''boolean'' \<longrightarrow>
        convertValue rt (JStr ''not-a-bool'') (Some b) = JStr ''not-a-bool''"
    by (simp add: convertValue_def columnTypeIs_def numericTypes_def lower_nab)
  have ex3: "dataType t = ''text'' \<longrightarrow> convertValue rt (JStr []) (Some t) = JNull"
    by (simp add: convertValue_def)
  from empties bool_true bool_false bool_other text_col ex1 ex2 ex3 show ?thesis by blast
qed

theorem convertValue_coercion_witness:
  "dataType \<lparr>name = ''active'', dataType = ''boolean'', dataTypeId = 16\<rparr> = ''boolean''
   \<and> dataType \<lparr>name = ''title'', dataType = ''text'', dataTypeId = 25\<rparr> = ''text''
   \<and> toLowerCase ''TRUE'' = ''true'' \<and> toLowerCase ''False'' = ''false''
   \<and> toLowerCase ''maybe'' \<noteq> ''true'' \<and> toLowerCase ''maybe'' \<noteq> ''false''
   \<and> convertValue sampleRuntime (JStr ''TRUE'')
        (Some \<lparr>name = ''active'', dataType = ''boolean'', dataTypeId = 16\<rparr>) = JBool True
   \<and> convertValue sampleRuntime (JStr ''False'')
        (Some \<lparr>name = ''active'', dataType = ''boolean'', dataTypeId = 16\<rparr>) = JBool False
   \<and> convertValue sampleRuntime (JStr ''maybe'')
        (Some \<lparr>name = ''active'', dataType = ''boolean'', dataTypeId = 16\<rparr>) = JStr ''maybe''
   \<and> convertValue sampleRuntime (JStr ''abc'')
        (Some \<lparr>name = ''title'', dataType = ''text'', dataTypeId = 25\<rparr>) = JStr ''abc''
   \<and> convertValue sampleRuntime (JStr ''not-a-bool'')
        (Some \<lparr>name = ''active'', dataType = ''boolean'', dataTypeId = 16\<rparr>)
        = JStr ''not-a-bool''
   \<and> convertValue sampleRuntime (JStr [])
        (Some \<lparr>name = ''title'', dataType = ''text'', dataTypeId = 25\<rparr>) = JNull"
  using convertValue_coercion [of sampleRuntime None
      "\<lparr>name = ''active'', dataType = ''boolean'', dataTypeId = 16\<rparr>" "''TRUE''" "''False''"
      "''maybe''" "\<lparr>name = ''title'', dataType = ''text'', dataTypeId = 25\<rparr>" "''abc''"]
  by (simp add: toLowerCase_simps char_case_defs)

section \<open>Reconciler: properties\<close>

lemma insertSorted_skip:
  "\<forall>y \<in> set ys. cmp x y > 0 \<Longrightarrow> insertSorted cmp x (ys @ zs) = ys @ insertSorted cmp x zs"
  by (induction ys) auto

lemma insertSorted_front:
  "zs = [] \<or> cmp x (hd zs) \<le> 0 \<Longrightarrow> insertSorted cmp x (ys @ zs) = insertSorted cmp x ys @ zs"
  by (induction ys) (cases zs; auto)+

lemma insertSorted_insort_key:
  "\<forall>y \<in> set ys. (cmp x y \<le> 0) = (f x \<le> f y) \<Longrightarrow> insertSorted cmp x ys = insort_key f x ys"
  by (induction ys) auto

lemma length_insertSorted: "length (insertSorted cmp x ys) = Suc (length ys)"
  by (induction ys) auto

lemma length_sortStable: "length (sortStable cmp xs) = length xs"
  by (induction xs) (auto simp: sortStable_def length_insertSorted)

lemma sortStable_changes:
  "sortStable compareChanges cs = deletesOf cs @ updatesOf cs @ insertsOf cs"
proof (induction cs)
  case Nil
  show ?case by (simp add: sortStable_def deletesOf_def updatesOf_def insertsOf_def)
next
  case (Cons x xs)
  have step: "sortStable compareChanges (x # xs) = insertSorted compareChanges x (deletesOf xs @ updatesOf xs @ insertsOf xs)"
    using Cons by (simp add: sortStable_def)
  have D: "\<forall>y \<in> set (deletesOf xs). type y = Delete" by (simp add: deletesOf_def)
  have U: "\<forall>y \<in> set (updatesOf xs). type y = Update" by (simp add: updatesOf_def)
  have I: "\<forall>y \<in> set (insertsOf xs). type y = Insert" by (simp add: insertsOf_def)
  show ?case
  proof (cases "type x")
    case Delete
    have "updatesOf xs @ insertsOf xs = [] \<or> compareChanges x (hd (updatesOf xs @ insertsOf xs)) \<le> 0"
    proof (cases "updatesOf xs @ insertsOf xs")
      case Nil then show ?thesis by simp
    next
      case (Cons y ys)
      then have "y \<in> set (updatesOf xs) \<union> set (insertsOf xs)"
        by (metis Un_iff list.set_intros(1) set_append)
      then have "type y = Update \<or> type y = Insert" using U I by auto
      then show ?thesis using Cons Delete by (auto simp: compareChanges_def)
    qed
    then have "insertSorted compareChanges x (deletesOf xs @ updatesOf xs @ insertsOf xs)
          = insertSorted compareChanges x (deletesOf xs) @ updatesOf xs @ insertsOf xs"
      by (rule insertSorted_front)
    also have "insertSorted compareChanges x (deletesOf xs) = insort_key (\<lambda>c. - rowIndex c) x (deletesOf xs)"
      by (rule insertSorted_insort_key) (use D Delete in \<open>auto simp: compareChanges_def\<close>)
    finally show ?thesis using step Delete by (simp add: deletesOf_def updatesOf_def insertsOf_def)
  next
    case Update
    have skipD: "\<forall>y \<in> set (deletesOf xs). compareChanges x y > 0"
      using D Update by (auto simp: compareChanges_def)
    have "insertsOf xs = [] \<or> compareChanges x (hd (insertsOf xs)) \<le> 0"
    proof (cases "insertsOf xs")
      case Nil then show ?thesis by simp
    next
      case (Cons y ys)
      then have "type y = Insert" using I by auto
      then show ?thesis using Cons Update by (auto simp: compareChanges_def)
    qed
    then have "insertSorted compareChanges x (updatesOf xs @ insertsOf xs)
          = insertSorted compareChanges x (updatesOf xs) @ insertsOf xs"
      by (rule insertSorted_front)
    moreover have "insertSorted compareChanges x (updatesOf xs) = insort_key rowIndex x (updatesOf xs)"
      by (rule insertSorted_insort_key) (use U Update in \<open>auto simp: compareChanges_def\<close>)
    ultimately show ?thesis
      using step Update insertSorted_skip[of "deletesOf xs" compareChanges x "updatesOf xs @ insertsOf xs"] skipD
      by (simp add: deletesOf_def updatesOf_def insertsOf_def)
  next
    case Insert
    have skipDU: "\<forall>y \<in> set (deletesOf xs @ updatesOf xs). compareChanges x y > 0"
      using D U Insert by (auto simp: compareChanges_def)
    have "insertSorted compareChanges x (insertsOf xs) = insort_key rowIndex x (insertsOf xs)"
      by (rule insertSorted_insort_key) (use I Insert in \<open>auto simp: compareChanges_def\<close>)
    then show ?thesis
      using step Insert insertSorted_skip[of "deletesOf xs @ updatesOf xs" compareChanges x "insertsOf xs"] skipDU
      by (simp add: deletesOf_def updatesOf_def insertsOf_def)
  qed
qed


lemma length_changeOutcomes:
  "length (changeOutcomes rt query tn pk cols cs db) = length cs"
  by (induction cs arbitrary: db) (auto split: sum.splits prod.splits)

lemma runChanges_sent:
  "snd (snd (runChanges rt query tn pk cols cs (res, db, sent)))
     = sent @ statementsFor rt tn pk cols cs"
proof (induction cs arbitrary: res db sent)
  case Nil
  show ?case by (simp add: statementsFor_def)
next
  case (Cons c cs)
  show ?case
    by (cases "buildSql rt tn pk cols c")
       (auto simp: applyChange_def statementsFor_def Cons.IH split: prod.splits sum.splits)
qed

lemma runChanges_result:
  "fst (runChanges rt query tn pk cols cs (res, db, sent)) = res' \<Longrightarrow>
     errors res' = errors res @ errorLines cs (changeOutcomes rt query tn pk cols cs db)
   \<and> affectedRows res' = affectedRows res + reportedRows (changeOutcomes rt query tn pk cols cs db)
   \<and> success res' = (success res \<and> list_all (\<lambda>outcome. \<not> isl outcome) (changeOutcomes rt query tn pk cols cs db))"
proof (induction cs arbitrary: res db sent res')
  case Nil
  then show ?case by (auto simp: errorLines_def reportedRows_def)
next
  case (Cons c cs)
  show ?case
  proof (cases "buildSql rt tn pk cols c")
    case (Inl message)
    then have "fst (runChanges rt query tn pk cols cs (recordError res c message, db, sent)) = res'"
      using Cons.prems by (simp add: applyChange_def)
    from Cons.IH[OF this] Inl show ?thesis
      by (auto simp: errorLines_def reportedRows_def recordError_def)
  next
    case (Inr statement)
    obtain sql params where st: "statement = (sql, params)" by (cases statement)
    obtain r db' where q: "query db sql params = (r, db')" by (cases "query db sql params")
    show ?thesis
    proof (cases r)
      case (Inl message)
      then have "fst (runChanges rt query tn pk cols cs
           (recordError (res\<lparr>executedSql := executedSql res @ [formatSqlWithParams rt sql params]\<rparr>) c message,
            db', sent @ [(sql, params)])) = res'"
        using Cons.prems Inr st q by (simp add: applyChange_def)
      from Cons.IH[OF this] Inl Inr st q show ?thesis
        by (auto simp: errorLines_def reportedRows_def recordError_def)
    next
      case (Inr n)
      then have "fst (runChanges rt query tn pk cols cs
           (res\<lparr> executedSql := executedSql res @ [formatSqlWithParams rt sql params],
                 affectedRows := affectedRows res + (case n of None \<Rightarrow> 0 | Some k \<Rightarrow> k) \<rparr>,
            db', sent @ [(sql, params)])) = res'"
        using Cons.prems \<open>buildSql rt tn pk cols c = Inr statement\<close> st q by (simp add: applyChange_def)
      from Cons.IH[OF this] Inr \<open>buildSql rt tn pk cols c = Inr statement\<close> st q show ?thesis
        by (auto simp: errorLines_def reportedRows_def)
    qed
  qed
qed


lemma runChanges_executedSql:
  "executedSql (fst (runChanges rt query tn pk cols cs (res, db, sent)))
     = executedSql res
       @ map (\<lambda>(sql, params). formatSqlWithParams rt sql params) (statementsFor rt tn pk cols cs)"
proof (induction cs arbitrary: res db sent)
  case Nil
  show ?case by (simp add: statementsFor_def)
next
  case (Cons c cs)
  show ?case
    by (cases "buildSql rt tn pk cols c")
       (auto simp: applyChange_def statementsFor_def recordError_def Cons.IH
             split: prod.splits sum.splits)
qed

lemma errorLines_empty:
  "length os = length cs \<Longrightarrow>
     (errorLines cs os = []) = list_all (\<lambda>outcome. \<not> isl outcome) os"
proof (induction cs arbitrary: os)
  case Nil
  then show ?case by (simp add: errorLines_def)
next
  case (Cons c cs)
  then obtain x xs where "os = x # xs" "length xs = length cs" by (cases os) auto
  with Cons.IH[of xs] show ?case by (cases x) (auto simp: errorLines_def)
qed

text \<open>
  C7. With a connection and an empty list of primary key columns, applyChanges returns at
  once: success is false, affectedRows is 0, the only error is "Cannot modify data without
  primary key columns defined", executedSql is empty, no statement is sent and the
  database is as before.
\<close>

theorem applyChanges_no_primary_key:
  "applyChanges rt (Some query) db changes cols tableName []
     = (\<lparr> success = False, affectedRows = 0,
          errors = [''Cannot modify data without primary key columns defined''],
          executedSql = [] \<rparr>, db, [])"
  by (simp add: applyChanges_def)

text \<open>
  C2, as stated, fails: two inserts supplied with row indices -1 and -2 (the temporary
  ids the results view gives to new rows) are sent in the opposite order.
\<close>

theorem applyChanges_insert_order_counterexample:
  "snd (snd (applyChanges sampleRuntime (Some samplePool) 0
       [sampleInsert (- 1) ''first'', sampleInsert (- 2) ''second''] sampleColumns ''t'' [''id'']))
     = [(''INSERT INTO t ('' @ [CHR 0x22] @ ''name'' @ [CHR 0x22] @ '') VALUES ($1)'',
         [JStr ''second'']),
        (''INSERT INTO t ('' @ [CHR 0x22] @ ''name'' @ [CHR 0x22] @ '') VALUES ($1)'',
         [JStr ''first''])]
   \<and> snd (snd (applyChanges sampleRuntime (Some samplePool) 0
       [sampleInsert (- 1) ''first'', sampleInsert (- 2) ''second''] sampleColumns ''t'' [''id'']))
     \<noteq> statementsFor sampleRuntime ''t'' [''id''] sampleColumns
         [sampleInsert (- 1) ''first'', sampleInsert (- 2) ''second'']"
  by code_simp

text \<open>
  C2, amended. With a connection and a non-empty primary key, the changes are processed,
  and their statements sent, in this order: the deletes by descending row index, then
  the updates by ascending row index, then the inserts by ascending row index; changes
  of one kind with the same row index keep the order in which they were supplied. The
  display texts in executedSql follow the same order.
\<close>

theorem applyChanges_execution_order:
  "primaryKeyColumns \<noteq> [] \<Longrightarrow>
     sortStable compareChanges changes
       = deletesOf changes @ updatesOf changes @ insertsOf changes
   \<and> snd (snd (applyChanges rt (Some query) db changes cols tableName primaryKeyColumns))
       = statementsFor rt tableName primaryKeyColumns cols
           (deletesOf changes @ updatesOf changes @ insertsOf changes)
   \<and> executedSql (fst (applyChanges rt (Some query) db changes cols tableName primaryKeyColumns))
       = map (\<lambda>(sql, params). formatSqlWithParams rt sql params)
           (statementsFor rt tableName primaryKeyColumns cols
              (deletesOf changes @ updatesOf changes @ insertsOf changes))"
  by (simp add: applyChanges_def runChanges_sent runChanges_executedSql sortStable_changes)

theorem applyChanges_execution_order_witness:
  "[''id''] \<noteq> []
   \<and> map (\<lambda>c. (type c, rowIndex c))
        (sortStable compareChanges
           [sampleUpdate 3 ''7'' ''B'', sampleInsert (- 1) ''first'', sampleUpdate 0 ''4'' ''A'',
            sampleInsert (- 2) ''second'', sampleDelete 5 ''12'', sampleDelete 6 ''13''])
       = [(Delete, 6), (Delete, 5), (Update, 0), (Update, 3), (Insert, - 2), (Insert, - 1)]
   \<and> snd (snd (applyChanges sampleRuntime (Some samplePool) 0
           [sampleUpdate 3 ''7'' ''B'', sampleInsert (- 1) ''first'', sampleUpdate 0 ''4'' ''A'',
            sampleInsert (- 2) ''second'', sampleDelete 5 ''12'', sampleDelete 6 ''13'']
           sampleColumns ''t'' [''id'']))
       = statementsFor sampleRuntime ''t'' [''id''] sampleColumns
           [sampleDelete 6 ''13'', sampleDelete 5 ''12'', sampleUpdate 0 ''4'' ''A'',
            sampleUpdate 3 ''7'' ''B'', sampleInsert (- 2) ''second'', sampleInsert (- 1) ''first'']"
proof -
  have pk: "[''id''] \<noteq> ([] :: string list)" by simp
  have groups:
    "deletesOf [sampleUpdate 3 ''7'' ''B'', sampleInsert (- 1) ''first'', sampleUpdate 0 ''4'' ''A'',
            sampleInsert (- 2) ''second'', sampleDelete 5 ''12'', sampleDelete 6 ''13'']
       @ updatesOf [sampleUpdate 3 ''7'' ''B'', sampleInsert (- 1) ''first'',
            sampleUpdate 0 ''4'' ''A'', sampleInsert (- 2) ''second'', sampleDelete 5 ''12'',
            sampleDelete 6 ''13'']
       @ insertsOf [sampleUpdate 3 ''7'' ''B'', sampleInsert (- 1) ''first'',
            sampleUpdate 0 ''4'' ''A'', sampleInsert (- 2) ''second'', sampleDelete 5 ''12'',
            sampleDelete 6 ''13'']
     = [sampleDelete 6 ''13'', sampleDelete 5 ''12'', sampleUpdate 0 ''4'' ''A'',
        sampleUpdate 3 ''7'' ''B'', sampleInsert (- 2) ''second'', sampleInsert (- 1) ''first'']"
    by code_simp
  have kinds:
    "map (\<lambda>c. (type c, rowIndex c))
       [sampleDelete 6 ''13'', sampleDelete 5 ''12'', sampleUpdate 0 ''4'' ''A'',
        sampleUpdate 3 ''7'' ''B'', sampleInsert (- 2) ''second'', sampleInsert (- 1) ''first'']
     = [(Delete, 6), (Delete, 5), (Update, 0), (Update, 3), (Insert, - 2), (Insert, - 1)]"
    by (simp add: sampleDelete_def sampleUpdate_def sampleInsert_def)
  from applyChanges_execution_order [OF pk,
      of "[sampleUpdate 3 ''7'' ''B'', sampleInsert (- 1) ''first'', sampleUpdate 0 ''4'' ''A'',
           sampleInsert (- 2) ''second'', sampleDelete 5 ''12'', sampleDelete 6 ''13'']"
         sampleRuntime samplePool 0 sampleColumns "''t''"]
  show ?thesis
    unfolding groups using kinds by simp
qed

text \<open>
  C8. With a connection and a non-empty primary key, every change is attempted, in the
  sorted order, whatever happened to the ones before it; the error list holds, for each
  change whose statement failed, an entry with the type and the row index of the change
  and the message; affectedRows is the sum of the row counts reported for the statements
  that ran; and success is true exactly when no change failed, that is, when the error
  list is empty.
\<close>

theorem applyChanges_best_effort:
  "primaryKeyColumns \<noteq> [] \<Longrightarrow>
     (let cs = sortStable compareChanges changes;
          outcomes = changeOutcomes rt query tableName primaryKeyColumns cols cs db;
          res = fst (applyChanges rt (Some query) db changes cols tableName primaryKeyColumns)
      in length outcomes = length changes
       \<and> errors res = errorLines cs outcomes
       \<and> affectedRows res = reportedRows outcomes
       \<and> success res = list_all (\<lambda>outcome. \<not> isl outcome) outcomes
       \<and> success res = (errors res = []))"
proof -
  assume pk: "primaryKeyColumns \<noteq> []"
  define cs where "cs = sortStable compareChanges changes"
  define outcomes where
    "outcomes = changeOutcomes rt query tableName primaryKeyColumns cols cs db"
  define res where
    "res = fst (applyChanges rt (Some query) db changes cols tableName primaryKeyColumns)"
  have len: "length outcomes = length cs"
    by (simp add: outcomes_def length_changeOutcomes)
  have lcs: "length cs = length changes"
    by (simp add: cs_def length_sortStable)
  have run: "fst (runChanges rt query tableName primaryKeyColumns cols cs
        (\<lparr> success = True, affectedRows = 0, errors = [], executedSql = [] \<rparr>, db, [])) = res"
    using pk by (simp add: res_def applyChanges_def cs_def)
  from runChanges_result[OF run]
  have r: "errors res = errorLines cs outcomes" "affectedRows res = reportedRows outcomes"
    "success res = list_all (\<lambda>outcome. \<not> isl outcome) outcomes"
    by (simp_all add: outcomes_def)
  have "success res = (errors res = [])"
    using r errorLines_empty[OF len] by simp
  with r len lcs show ?thesis
    by (simp add: Let_def cs_def[symmetric] outcomes_def[symmetric] res_def[symmetric])
qed

theorem applyChanges_best_effort_witness:
  "[''id''] \<noteq> []
   \<and> changeOutcomes sampleRuntime samplePool ''t'' [''id''] sampleColumns
        (sortStable compareChanges
           [sampleUpdate 0 ''7'' ''B'', sampleInsert (- 1) ''first'', sampleDelete 5 ''12'',
            sampleDelete 6 ''13'']) 0
       = [Inr 1, Inl ''boom'', Inr 1, Inr 1]
   \<and> errors (fst (applyChanges sampleRuntime (Some samplePool) 0
           [sampleUpdate 0 ''7'' ''B'', sampleInsert (- 1) ''first'', sampleDelete 5 ''12'',
            sampleDelete 6 ''13''] sampleColumns ''t'' [''id'']))
       = [''delete row 5: boom'']
   \<and> affectedRows (fst (applyChanges sampleRuntime (Some samplePool) 0
           [sampleUpdate 0 ''7'' ''B'', sampleInsert (- 1) ''first'', sampleDelete 5 ''12'',
            sampleDelete 6 ''13''] sampleColumns ''t'' [''id'']))
       = 3
   \<and> \<not> success (fst (applyChanges sampleRuntime (Some samplePool) 0
           [sampleUpdate 0 ''7'' ''B'', sampleInsert (- 1) ''first'', sampleDelete 5 ''12'',
            sampleDelete 6 ''13''] sampleColumns ''t'' [''id'']))"
proof -
  have pk: "[''id''] \<noteq> ([] :: string list)" by simp
  have sorted_changes:
    "sortStable compareChanges
       [sampleUpdate 0 ''7'' ''B'', sampleInsert (- 1) ''first'', sampleDelete 5 ''12'',
        sampleDelete 6 ''13'']
     = [sampleDelete 6 ''13'', sampleDelete 5 ''12'', sampleUpdate 0 ''7'' ''B'',
        sampleInsert (- 1) ''first'']"
    by code_simp
  have outcomes:
    "changeOutcomes sampleRuntime samplePool ''t'' [''id''] sampleColumns
       [sampleDelete 6 ''13'', sampleDelete 5 ''12'', sampleUpdate 0 ''7'' ''B'',
        sampleInsert (- 1) ''first''] 0
     = [Inr 1, Inl ''boom'', Inr 1, Inr 1]"
    by code_simp
  have lines:
    "errorLines [sampleDelete 6 ''13'', sampleDelete 5 ''12'', sampleUpdate 0 ''7'' ''B'',
        sampleInsert (- 1) ''first''] [Inr 1, Inl ''boom'', Inr 1, Inr 1]
     = [''delete row 5: boom'']"
    by code_simp
  from applyChanges_best_effort [OF pk,
      of "[sampleUpdate 0 ''7'' ''B'', sampleInsert (- 1) ''first'', sampleDelete 5 ''12'',
           sampleDelete 6 ''13'']" sampleRuntime samplePool "''t''" sampleColumns 0]
  show ?thesis
    unfolding Let_def sorted_changes outcomes lines by (simp add: reportedRows_def)
qed

section \<open>Display text of a statement: properties\<close>

text \<open>
  C10. The update of column name to the text US$ in the row with id 5 gives the
  statement UPDATE t SET "name" = $1 WHERE "id" = $2 with the parameters 'US$' and 5.
  The display literal of the first, 'US$', ends with the replacement pattern $' (the text
  behind the match), so formatSqlWithParams does not put the literal in the place of $1:
  the audit text is UPDATE t SET "name" = 'US WHERE "id" = 5 WHERE "id" = 5.
\<close>

theorem formatSqlWithParams_dollar_pattern:
  "snd (snd (applyChanges sampleRuntime (Some samplePool) 0 [sampleUpdate 0 ''5'' ''US$'']
              sampleColumns ''t'' [''id'']))
     = [(''UPDATE t SET '' @ [CHR 0x22] @ ''name'' @ [CHR 0x22] @ '' = $1 WHERE ''
           @ [CHR 0x22] @ ''id'' @ [CHR 0x22] @ '' = $2'',
         [JStr ''US$'', JNum (Some 5)])]
   \<and> formatValueForSql sampleRuntime (JStr ''US$'') = [CHR 0x27] @ ''US$'' @ [CHR 0x27]
   \<and> formatSqlWithParams sampleRuntime
        (''UPDATE t SET '' @ [CHR 0x22] @ ''name'' @ [CHR 0x22] @ '' = $1 WHERE ''
           @ [CHR 0x22] @ ''id'' @ [CHR 0x22] @ '' = $2'')
        [JStr ''US$'', JNum (Some 5)]
     = ''UPDATE t SET '' @ [CHR 0x22] @ ''name'' @ [CHR 0x22] @ '' = '' @ [CHR 0x27]
         @ ''US WHERE '' @ [CHR 0x22] @ ''id'' @ [CHR 0x22] @ '' = 5 WHERE ''
         @ [CHR 0x22] @ ''id'' @ [CHR 0x22] @ '' = 5''"
  by code_simp

section \<open>Statement splitter: properties\<close>

text \<open>
  What the scanning loop does with protected text, from a state outside of strings and
  comments: a quoted string or identifier (with no quote of its kind inside, and none
  right behind it), a line comment up to its newline, and a block comment whose closing
  delimiter is the first one behind the star of the opening delimiter, are appended as
  they are to the current statement, semicolons included. Segments of plain code units
  between semicolons are the statements, the blank ones dropped.
\<close>

lemma splitLoop_Cons:
  "splitLoop st (c # rest) = splitLoop (fst (splitStep st c (headOpt rest)))
      (if snd (splitStep st c (headOpt rest)) then tl rest else rest)"
  by (simp add: case_prod_beta)

lemma in_string_body:
  assumes "inString st" "stringChar st = [q]" "\<not> inLineComment st" "\<not> inBlockComment st"
    and "q \<notin> set body" and "headOpt rest \<noteq> Some q"
  shows "splitLoop st (body @ q # rest)
       = splitLoop (st\<lparr>current := current st @ body @ [q], inString := False\<rparr>) rest"
  using assms
proof (induction body arbitrary: st)
  case Nil
  then show ?case
    by (simp add: splitLoop_Cons splitStep_def del: splitLoop.simps(2))
next
  case (Cons c body)
  have step: "splitStep st c (headOpt (body @ q # rest)) = (st\<lparr>current := current st @ [c]\<rparr>, False)"
    using Cons.prems by (auto simp add: splitStep_def)
  have "splitLoop st ((c # body) @ q # rest) = splitLoop (st\<lparr>current := current st @ [c]\<rparr>) (body @ q # rest)"
    using step by (simp del: splitLoop.simps(2) add: splitLoop_Cons)
  also have "\<dots> = splitLoop (st\<lparr>current := current st @ [c]\<rparr>\<lparr>current := current (st\<lparr>current := current st @ [c]\<rparr>) @ body @ [q], inString := False\<rparr>) rest"
    by (rule Cons.IH) (use Cons.prems in auto)
  finally show ?case by simp
qed

lemma quoted_text:
  assumes "outside st" and "q = CHR 0x27 \<or> q = CHR 0x22"
    and "q \<notin> set body" and "headOpt rest \<noteq> Some q"
  shows "splitLoop st (q # body @ q # rest)
       = splitLoop (st\<lparr>current := current st @ q # body @ [q], stringChar := [q]\<rparr>) rest"
proof -
  have step: "splitStep st q (headOpt (body @ q # rest))
      = (st\<lparr>inString := True, stringChar := [q], current := current st @ [q]\<rparr>, False)"
    using assms(1,2) by (auto simp: splitStep_def outside_def)
  have "splitLoop st (q # body @ q # rest)
      = splitLoop (st\<lparr>inString := True, stringChar := [q], current := current st @ [q]\<rparr>) (body @ q # rest)"
    using step by (simp del: splitLoop.simps(2) add: splitLoop_Cons)
  also have "\<dots> = splitLoop (st\<lparr>inString := True, stringChar := [q], current := current st @ [q]\<rparr>
        \<lparr>current := current (st\<lparr>inString := True, stringChar := [q], current := current st @ [q]\<rparr>) @ body @ [q], inString := False\<rparr>) rest"
    by (rule in_string_body) (use assms in \<open>auto simp: outside_def\<close>)
  also have "\<dots> = splitLoop (st\<lparr>current := current st @ q # body @ [q], stringChar := [q]\<rparr>) rest"
    using assms(1) by (cases st) (simp add: outside_def)
  finally show ?thesis .
qed


lemma in_line_comment_body:
  assumes "inLineComment st" "\<not> inString st" "\<not> inBlockComment st"
    and "CHR 0x0A \<notin> set body"
  shows "splitLoop st (body @ CHR 0x0A # rest)
       = splitLoop (st\<lparr>current := current st @ body @ [CHR 0x0A], inLineComment := False\<rparr>) rest"
  using assms
proof (induction body arbitrary: st)
  case Nil
  then show ?case
    by (simp add: splitLoop_Cons splitStep_def del: splitLoop.simps(2))
next
  case (Cons c body)
  have step: "splitStep st c (headOpt (body @ CHR 0x0A # rest)) = (st\<lparr>current := current st @ [c]\<rparr>, False)"
    using Cons.prems by (cases st) (auto simp add: splitStep_def)
  have "splitLoop st ((c # body) @ CHR 0x0A # rest)
      = splitLoop (st\<lparr>current := current st @ [c]\<rparr>) (body @ CHR 0x0A # rest)"
    using step by (simp del: splitLoop.simps(2) add: splitLoop_Cons)
  also have "\<dots> = splitLoop (st\<lparr>current := current st @ [c]\<rparr>
        \<lparr>current := current (st\<lparr>current := current st @ [c]\<rparr>) @ body @ [CHR 0x0A],
          inLineComment := False\<rparr>) rest"
    by (rule Cons.IH) (use Cons.prems in auto)
  finally show ?case by simp
qed

lemma line_comment_text:
  assumes "outside st" and "CHR 0x0A \<notin> set body"
  shows "splitLoop st (''--'' @ body @ CHR 0x0A # rest)
       = splitLoop (st\<lparr>current := current st @ ''--'' @ body @ [CHR 0x0A]\<rparr>) rest"
proof -
  let ?st1 = "st\<lparr>inLineComment := True, current := current st @ ''-''\<rparr>"
  have step: "splitStep st CHR ''-'' (headOpt (CHR ''-'' # body @ CHR 0x0A # rest)) = (?st1, False)"
    using assms(1) by (simp add: splitStep_def outside_def headOpt_def)
  have "splitLoop st (''--'' @ body @ CHR 0x0A # rest)
      = splitLoop ?st1 ((CHR ''-'' # body) @ CHR 0x0A # rest)"
    using step by (simp del: splitLoop.simps(2) add: splitLoop_Cons)
  also have "\<dots> = splitLoop (?st1\<lparr>current := current ?st1 @ (CHR ''-'' # body) @ [CHR 0x0A],
        inLineComment := False\<rparr>) rest"
    by (rule in_line_comment_body) (use assms in \<open>auto simp: outside_def\<close>)
  also have "\<dots> = splitLoop (st\<lparr>current := current st @ ''--'' @ body @ [CHR 0x0A]\<rparr>) rest"
    using assms(1) by (cases st) (simp add: outside_def)
  finally show ?thesis .
qed

lemma in_block_comment_body:
  assumes "inBlockComment st" "\<not> inString st" "\<not> inLineComment st"
    and "\<not> includes_str body ''*/''"
  shows "splitLoop st (body @ ''*/'' @ rest)
       = splitLoop (st\<lparr>current := current st @ body @ ''*/'', inBlockComment := False\<rparr>) rest"
  using assms
proof (induction body arbitrary: st)
  case Nil
  then show ?case
    by (simp add: splitLoop_Cons splitStep_def headOpt_def del: splitLoop.simps(2))
next
  case (Cons c body)
  have noclose: "\<not> (c = CHR ''*'' \<and> headOpt (body @ ''*/'' @ rest) = Some CHR ''/'')"
    using Cons.prems(4) by (cases body) (auto simp: startsWith_def headOpt_def)
  have step: "splitStep st c (headOpt (body @ ''*/'' @ rest)) = (st\<lparr>current := current st @ [c]\<rparr>, False)"
    using Cons.prems(1-3) noclose by (cases st) (auto simp add: splitStep_def)
  have "splitLoop st ((c # body) @ ''*/'' @ rest)
      = splitLoop (st\<lparr>current := current st @ [c]\<rparr>) (body @ ''*/'' @ rest)"
    using step by (simp del: splitLoop.simps(2) add: splitLoop_Cons)
  also have "\<dots> = splitLoop (st\<lparr>current := current st @ [c]\<rparr>
        \<lparr>current := current (st\<lparr>current := current st @ [c]\<rparr>) @ body @ ''*/'',
          inBlockComment := False\<rparr>) rest"
    by (rule Cons.IH) (use Cons.prems in auto)
  finally show ?case by simp
qed

lemma block_comment_text:
  assumes "outside st" and "\<not> includes_str (CHR ''*'' # body) ''*/''"
  shows "splitLoop st (''/*'' @ body @ ''*/'' @ rest)
       = splitLoop (st\<lparr>current := current st @ ''/*'' @ body @ ''*/''\<rparr>) rest"
proof -
  let ?st1 = "st\<lparr>inBlockComment := True, current := current st @ ''/''\<rparr>"
  have step: "splitStep st CHR ''/'' (headOpt (CHR ''*'' # body @ ''*/'' @ rest)) = (?st1, False)"
    using assms(1) by (simp add: splitStep_def outside_def headOpt_def)
  have "splitLoop st (''/*'' @ body @ ''*/'' @ rest)
      = splitLoop ?st1 ((CHR ''*'' # body) @ ''*/'' @ rest)"
    using step by (simp del: splitLoop.simps(2) add: splitLoop_Cons)
  also have "\<dots> = splitLoop (?st1\<lparr>current := current ?st1 @ (CHR ''*'' # body) @ ''*/'',
        inBlockComment := False\<rparr>) rest"
    by (rule in_block_comment_body) (use assms in \<open>auto simp: outside_def\<close>)
  also have "\<dots> = splitLoop (st\<lparr>current := current st @ ''/*'' @ body @ ''*/''\<rparr>) rest"
    using assms(1) by (cases st) (simp add: outside_def)
  finally show ?thesis .
qed

lemma plain_text:
  assumes "outside st" and "list_all plainChar seg"
  shows "splitLoop st (seg @ rest) = splitLoop (st\<lparr>current := current st @ seg\<rparr>) rest"
  using assms
proof (induction seg arbitrary: st)
  case Nil
  then show ?case by simp
next
  case (Cons c seg)
  have step: "splitStep st c (headOpt (seg @ rest)) = (st\<lparr>current := current st @ [c]\<rparr>, False)"
    using Cons.prems by (auto simp add: splitStep_def outside_def plainChar_def)
  have "splitLoop st ((c # seg) @ rest) = splitLoop (st\<lparr>current := current st @ [c]\<rparr>) (seg @ rest)"
    using step by (simp del: splitLoop.simps(2) add: splitLoop_Cons)
  also have "\<dots> = splitLoop (st\<lparr>current := current st @ [c]\<rparr>
        \<lparr>current := current (st\<lparr>current := current st @ [c]\<rparr>) @ seg\<rparr>) rest"
    by (rule Cons.IH) (use Cons.prems in \<open>auto simp: outside_def\<close>)
  finally show ?case by simp
qed

lemma semicolon_step:
  assumes "outside st"
  shows "splitLoop st (CHR '';'' # rest)
       = splitLoop (st\<lparr>statements := (if trim (current st) \<noteq> [] then statements st @ [current st]
                                         else statements st), current := []\<rparr>) rest"
  using assms by (simp add: splitStep_def outside_def)

lemma plain_segments_loop:
  assumes "outside st" and "current st = []" and "list_all (list_all plainChar) segs"
  shows "(let st' = splitLoop st (join '';'' segs)
          in if trim (current st') \<noteq> [] then statements st' @ [current st'] else statements st')
       = statements st @ filter (\<lambda>seg. trim seg \<noteq> []) segs"
  using assms
proof (induction segs arbitrary: st)
  case Nil
  then show ?case by (simp add: trim_def)
next
  case (Cons seg segs)
  show ?case
  proof (cases segs)
    case Nil
    have "splitLoop st (seg @ []) = splitLoop (st\<lparr>current := current st @ seg\<rparr>) []"
      by (rule plain_text) (use Cons.prems in auto)
    then show ?thesis using Nil Cons.prems(2) by (simp add: Let_def)
  next
    case (Cons seg2 segs2)
    let ?st1 = "st\<lparr>current := current st @ seg\<rparr>"
    let ?st2 = "?st1\<lparr>statements := (if trim (current ?st1) \<noteq> [] then statements ?st1 @ [current ?st1]
                                         else statements ?st1), current := []\<rparr>"
    have j: "join '';'' (seg # segs) = seg @ CHR '';'' # join '';'' segs"
      using Cons by simp
    have "splitLoop st (seg @ CHR '';'' # join '';'' segs) = splitLoop ?st1 (CHR '';'' # join '';'' segs)"
      by (rule plain_text) (use Cons.prems in auto)
    also have "\<dots> = splitLoop ?st2 (join '';'' segs)"
      by (rule semicolon_step) (use Cons.prems in \<open>auto simp: outside_def\<close>)
    finally have l: "splitLoop st (join '';'' (seg # segs)) = splitLoop ?st2 (join '';'' segs)"
      using j by simp
    have ih: "(let st' = splitLoop ?st2 (join '';'' segs)
          in if trim (current st') \<noteq> [] then statements st' @ [current st'] else statements st')
       = statements ?st2 @ filter (\<lambda>seg. trim seg \<noteq> []) segs"
      by (rule Cons.IH) (use Cons.prems in \<open>auto simp: outside_def\<close>)
    show ?thesis
      unfolding l ih using Cons.prems(2) by simp
  qed
qed

lemma splitSqlStatements_plain_segments:
  "list_all (list_all plainChar) segs \<Longrightarrow>
     splitSqlStatements (join '';'' segs) = filter (\<lambda>seg. trim seg \<noteq> []) segs"
  using plain_segments_loop[of initialSplit segs]
  by (simp add: splitSqlStatements_def outside_def initialSplit_def)

text \<open>
  The examples of the specification: a semicolon in a string literal is no boundary, and
  two statements are returned without their semicolons (the second with its leading
  blank).
\<close>

lemma splitSqlStatements_examples:
  "splitSqlStatements (''INSERT INTO t(x) VALUES ('' @ [CHR 0x27] @ '';'' @ [CHR 0x27] @ '')'')
     = [''INSERT INTO t(x) VALUES ('' @ [CHR 0x27] @ '';'' @ [CHR 0x27] @ '')'']
   \<and> splitSqlStatements ''SELECT 1; SELECT 2;'' = [''SELECT 1'', '' SELECT 2'']
   \<and> splitSqlStatements ''SELECT /* ; */ 1 -- a;b'' = [''SELECT /* ; */ 1 -- a;b'']"
  by code_simp

text \<open>
  C4. In SELECT /*/ ; */ 1 the semicolon stands inside a block comment. The splitter
  takes the star of the opening delimiter for the star of a closing one, leaves the
  comment after /*/ and splits at the semicolon; the comment stripper, which skips the
  star of the opening delimiter, removes the whole comment.
\<close>

theorem splitSqlStatements_block_comment_overlap:
  "splitSqlStatements ''SELECT /*/ ; */ 1'' = [''SELECT /*/ '', '' */ 1'']
   \<and> stripSqlComments ''SELECT /*/ ; */ 1'' = ''SELECT  1''"
  by code_simp

section \<open>Row limit: properties\<close>

lemma dropWhile_all: "list_all P xs \<Longrightarrow> dropWhile P (xs @ ys) = dropWhile P ys"
  by (simp add: list_all_iff dropWhile_append2)

lemma dropWhile_all_Nil: "list_all P xs \<Longrightarrow> dropWhile P xs = []"
  by (simp add: list_all_iff)

lemma trim_framed:
  assumes "list_all isSpace ws1" "list_all isSpace ws2"
    and "body = [] \<or> (\<not> isSpace (hd body) \<and> \<not> isSpace (last body))"
  shows "trim (ws1 @ body @ ws2) = body"
proof (cases "body = []")
  case True
  with assms show ?thesis
    by (simp add: trim_def dropWhile_all dropWhile_all_Nil)
next
  case False
  with assms have h: "\<not> isSpace (hd body)" and l: "\<not> isSpace (last body)" by auto
  have "dropWhile isSpace (body @ ws2) = body @ ws2"
    using False h by (cases body) simp_all
  then have 1: "dropWhile isSpace (ws1 @ body @ ws2) = body @ ws2"
    using assms(1) by (simp add: dropWhile_all)
  have "dropWhile isSpace (rev body) = rev body"
    using False l by (cases "rev body") (auto simp: last_rev[symmetric] hd_rev)
  then have 2: "dropWhile isSpace (rev ws2 @ rev body) = rev body"
    using assms(2) by (simp add: dropWhile_all)
  from 1 2 show ?thesis by (simp add: trim_def)
qed

lemma endsWith_snoc: "endsWith (xs @ [c]) [c]"
  by (simp add: endsWith_def)

lemma endsWith_single: "endsWith xs [c] = (xs \<noteq> [] \<and> last xs = c)"
proof (cases xs rule: rev_cases)
  case Nil
  then show ?thesis by (simp add: endsWith_def)
next
  case (snoc ys y)
  then show ?thesis by (auto simp add: endsWith_def)
qed

text \<open>
  The no-break space is white space for \<^verbatim>\<open>trim\<close> and for \<^verbatim>\<open>\s\<close>.
\<close>

lemma no_break_space_examples:
  "addLimitClause ([CHR 0xA0] @ ''SELECT 1'') 100 = ''SELECT 1 LIMIT 100''
   \<and> hasLimitClause (''SELECT 1 LIMIT'' @ [CHR 0xA0] @ ''5'')
   \<and> isSelectQuery ([CHR 0xA0] @ ''SELECT 1'')
   \<and> isSelectQuery (''select'' @ [CHR 0xA0] @ ''1'')"
  by code_simp

text \<open>
  Without a trailing semicolon the three forms of a limit clause are found, in any letter
  case and with white space behind them; a statement without one has none.
\<close>

lemma hasLimitClause_examples:
  "hasLimitClause ''SELECT * FROM t LIMIT 10''
   \<and> hasLimitClause ''select * from t limit 10 offset 20  ''
   \<and> hasLimitClause ''SELECT * FROM t FETCH FIRST 5 ROWS ONLY''
   \<and> hasLimitClause ''SELECT * FROM t fetch next 1 row only''
   \<and> \<not> hasLimitClause ''SELECT * FROM t''
   \<and> \<not> hasLimitClause ''SELECT * FROM (SELECT * FROM u LIMIT 10) v''"
  by code_simp

text \<open>
  C1. The statement SELECT * FROM t LIMIT 10; ends with LIMIT 10 and a semicolon, and
  hasLimitClause is false for it (without the semicolon it is true). The statement is a
  select query, so the command adds a second limit, which addLimitClause puts before the
  semicolon.
\<close>

theorem hasLimitClause_trailing_semicolon:
  "\<not> hasLimitClause ''SELECT * FROM t LIMIT 10;''
   \<and> hasLimitClause ''SELECT * FROM t LIMIT 10''
   \<and> isSelectQuery ''SELECT * FROM t LIMIT 10;''
   \<and> limitForExecution ''SELECT * FROM t LIMIT 10;''
       = (''SELECT * FROM t LIMIT 10 LIMIT 100;'', True)"
  by code_simp

text \<open>
  C3, as stated, fails: addLimitClause alters a statement on which hasLimitClause is
  true.
\<close>

theorem addLimitClause_unconditional_counterexample:
  "hasLimitClause ''SELECT * FROM t LIMIT 10''
   \<and> addLimitClause ''SELECT * FROM t LIMIT 10'' 100 = ''SELECT * FROM t LIMIT 10 LIMIT 100''
   \<and> addLimitClause ''SELECT * FROM t LIMIT 10'' 100 \<noteq> ''SELECT * FROM t LIMIT 10''"
  by code_simp

text \<open>
  C3, amended. A statement is white space, a body that neither starts nor ends with
  white space, and white space; or the same with a semicolon, between white space, behind
  the body. In the first case (the body not ending with a semicolon) addLimitClause
  returns the body followed by " LIMIT n"; in the second the body followed by " LIMIT n"
  and the semicolon; n is an integer of magnitude up to Number.MAX_SAFE_INTEGER, printed
  in decimal. It does so whether or not hasLimitClause holds. The command leaves
  a statement with a limit clause as it is, because it calls addLimitClause (with 100)
  only for a select query on which hasLimitClause is false.
\<close>

theorem addLimitClause_appends:
  "(abs n \<le> maxSafeInteger
      \<and> list_all isSpace ws1 \<and> list_all isSpace ws2 \<and> list_all isSpace ws3
      \<and> (body = [] \<or> (\<not> isSpace (hd body) \<and> \<not> isSpace (last body))) \<longrightarrow>
        addLimitClause (ws1 @ body @ ws2 @ '';'' @ ws3) n = body @ '' LIMIT '' @ showInt n @ '';'')
   \<and> (abs n \<le> maxSafeInteger
      \<and> list_all isSpace ws1 \<and> list_all isSpace ws3
      \<and> (text = [] \<or> (\<not> isSpace (hd text) \<and> \<not> isSpace (last text) \<and> last text \<noteq> CHR '';'')) \<longrightarrow>
        addLimitClause (ws1 @ text @ ws3) n = text @ '' LIMIT '' @ showInt n)
   \<and> (hasLimitClause sql1 \<longrightarrow> limitForExecution sql1 = (sql1, False))
   \<and> (isSelectQuery sql2 \<and> \<not> hasLimitClause sql2 \<longrightarrow>
        limitForExecution sql2 = (addLimitClause sql2 100, True))"
proof -
  have semi: "addLimitClause (ws1 @ body @ ws2 @ '';'' @ ws3) n = body @ '' LIMIT '' @ showInt n @ '';''"
    if ws: "list_all isSpace ws1" "list_all isSpace ws2" "list_all isSpace ws3"
      and b: "body = [] \<or> (\<not> isSpace (hd body) \<and> \<not> isSpace (last body))"
  proof -
    have ns: "\<not> isSpace CHR '';''" by (simp add: isSpace_def)
    have t1: "trim (ws1 @ body @ ws2 @ '';'' @ ws3) = (if body = [] then '';'' else body @ ws2 @ '';'')"
    proof (cases "body = []")
      case True
      have "trim ((ws1 @ ws2) @ '';'' @ ws3) = '';''"
        by (rule trim_framed) (use ws ns in auto)
      with True show ?thesis by simp
    next
      case False
      have "trim (ws1 @ (body @ ws2 @ '';'') @ ws3) = body @ ws2 @ '';''"
        by (rule trim_framed) (use ws ns b False in auto)
      with False show ?thesis by simp
    qed
    have t2: "trim (body @ ws2) = body"
      using trim_framed[of "[]" ws2 body] ws b by simp
    show ?thesis
    proof (cases "body = []")
      case True
      then show ?thesis
        using t1 by (simp add: addLimitClause_def Let_def endsWith_def trim_def)
    next
      case False
      have "endsWith (body @ ws2 @ '';'') '';''"
        using endsWith_snoc[of "body @ ws2" "CHR '';''"] by simp
      moreover have "butlast (body @ ws2 @ '';'') = body @ ws2"
        using butlast_snoc[of "body @ ws2" "CHR '';''"] by simp
      ultimately show ?thesis
        using t1 t2 False by (simp add: addLimitClause_def Let_def)
    qed
  qed
  have plain: "addLimitClause (ws1 @ text @ ws3) n = text @ '' LIMIT '' @ showInt n"
    if ws: "list_all isSpace ws1" "list_all isSpace ws3"
      and b: "text = [] \<or> (\<not> isSpace (hd text) \<and> \<not> isSpace (last text) \<and> last text \<noteq> CHR '';'')"
  proof -
    have "trim (ws1 @ text @ ws3) = text"
      by (rule trim_framed) (use ws b in auto)
    moreover have "\<not> endsWith text '';''"
      using b by (auto simp: endsWith_single)
    ultimately show ?thesis by (simp add: addLimitClause_def Let_def)
  qed
  have guard1: "hasLimitClause sql1 \<longrightarrow> limitForExecution sql1 = (sql1, False)"
    by (simp add: limitForExecution_def)
  have guard2: "isSelectQuery sql2 \<and> \<not> hasLimitClause sql2 \<longrightarrow>
        limitForExecution sql2 = (addLimitClause sql2 100, True)"
    by (simp add: limitForExecution_def)
  from semi plain guard1 guard2 show ?thesis by blast
qed

theorem addLimitClause_appends_witness:
  "abs 100 \<le> maxSafeInteger
   \<and> list_all isSpace '' '' \<and> list_all isSpace [CHR 0x0A] \<and> list_all isSpace []
   \<and> \<not> isSpace (hd ''SELECT * FROM t'') \<and> \<not> isSpace (last ''SELECT * FROM t'')
   \<and> last ''SELECT * FROM t'' \<noteq> CHR '';''
   \<and> hasLimitClause ''SELECT 1 LIMIT 5'' \<and> isSelectQuery ''SELECT * FROM t;''
   \<and> \<not> hasLimitClause ''SELECT * FROM t;''
   \<and> addLimitClause ('' '' @ ''SELECT * FROM t'' @ [CHR 0x0A] @ '';'' @ []) 100
       = ''SELECT * FROM t LIMIT 100;''
   \<and> addLimitClause ('' '' @ ''SELECT * FROM t'' @ []) 100 = ''SELECT * FROM t LIMIT 100''
   \<and> limitForExecution ''SELECT 1 LIMIT 5'' = (''SELECT 1 LIMIT 5'', False)
   \<and> limitForExecution ''SELECT * FROM t;'' = (''SELECT * FROM t LIMIT 100;'', True)"
proof -
  have ev: "abs 100 \<le> maxSafeInteger
   \<and> list_all isSpace '' '' \<and> list_all isSpace [CHR 0x0A] \<and> list_all isSpace []
   \<and> \<not> isSpace (hd ''SELECT * FROM t'') \<and> \<not> isSpace (last ''SELECT * FROM t'')
   \<and> last ''SELECT * FROM t'' \<noteq> CHR '';''
   \<and> hasLimitClause ''SELECT 1 LIMIT 5'' \<and> isSelectQuery ''SELECT * FROM t;''
   \<and> \<not> hasLimitClause ''SELECT * FROM t;''"
    by code_simp
  have n: "showInt 100 = ''100''" by code_simp
  have a: "addLimitClause ''SELECT * FROM t;'' 100 = ''SELECT * FROM t LIMIT 100;''" by code_simp
  from addLimitClause_appends [of 100 "'' ''" "[CHR 0x0A]" "[]" "''SELECT * FROM t''"
      "''SELECT * FROM t''" "''SELECT 1 LIMIT 5''" "''SELECT * FROM t;''"] ev
  show ?thesis by (simp add: n a)
qed

section \<open>Classification: properties\<close>

lemma rmatch_space_Nil: "rmatch ic (RPlus Space) (p, []) = []"
  by simp

lemma rmatch_space_nonspace: "\<not> isSpace c \<Longrightarrow> rmatch ic (RPlus Space) (p, c # s) = []"
  by simp














lemma sqlWords_Nil_iff: "(sqlWords s = []) = list_all isSpace s"
  by (induction s) (auto split: list.splits)


























section \<open>Query executor: properties\<close>

lemma handleError_cancelled:
  assumes "(case activeQuery st of None \<Rightarrow> False | Some aq \<Rightarrow> cancelled aq)
             \<or> includes_str e ''canceling statement due to user request''
             \<or> includes_str e ''57014''"
  shows "handleError env sql connId cl e st
     = (Inr \<lparr> columns = [], rows = [], rowCount = 0, duration = endTime env - startTime env,
              error = Some ''Query cancelled by user'' \<rparr>, releaseAndClear cl st)"
  using assms by (simp add: handleError_def Let_def)

text \<open>
  C5, as stated, fails: cancelCurrentQuery runs while the statement is awaited and marks
  the active query cancelled, but the statement still succeeds. The execution returns
  the normal result, with no error, and records a history item.
\<close>

theorem execute_cancelled_but_succeeded_counterexample:
  "map_option cancelled
     (activeQuery (snd (cancelCurrentQuery
        (idleExecutor\<lparr> checkedOut := [8],
                        activeQuery := Some \<lparr> client = 8, pid = 4243,
                                             connectionId = ''conn-1'', cancelled = False \<rparr>,
                        queryRunning := True \<rparr>) True (Inr ())))) = Some True
   \<and> fst (execute sampleRaceEnv ''SELECT 1'' (Some ''conn-1'') idleExecutor)
       = Inr \<lparr> columns = [\<lparr>name = ''n'', dataType = ''integer'', dataTypeId = 23\<rparr>],
               rows = [()], rowCount = 1, duration = 3, error = None \<rparr>
   \<and> queryHistory (snd (execute sampleRaceEnv ''SELECT 1'' (Some ''conn-1'') idleExecutor))
       = [\<lparr> item_id = ''query_2003_def'', item_sql = ''SELECT 1'',
            item_connectionId = ''conn-1'', item_timestamp = 2003, item_duration = 3,
            item_rowCount = 1, item_error = None \<rparr>]"
  by (simp add: execute_def poolConnect_def poolMax_def sampleRaceEnv_def sampleSuccessEnv_def
        idleExecutor_def cancelCurrentQuery_def releaseAndClear_def addToHistory_def
        maxHistoryItems_def getDataTypeName_def Let_def)

text \<open>
  C5, amended. Take an execution that gets its client from the pool and its backend
  process id and whose statement fails with a driver error, and let cancelCurrentQuery
  have run while the statement was awaited (so that the active query is marked
  cancelled), or let the text of the error contain one of the two cancellation
  signatures. Then execute returns a result (it does not throw) whose error is "Query
  cancelled by user", the history is as before, the client is back in the pool (the
  clients checked out are those from before the execution) and the active query is
  cleared; so the pool again has a client to give, and a later execute on the same
  connection whose statement succeeds returns a result without error.
\<close>

theorem execute_cancelled:
  assumes "length (checkedOut st) < poolMax"
    and "connectOutcome env = Inr cl" and "pidOutcome env = Inr p"
    and "queryOutcome env = Inl e"
    and "cancelDuring env \<noteq> None
         \<or> includes_str e ''canceling statement due to user request''
         \<or> includes_str e ''57014''"
  shows "\<exists>res st'. execute env sql (Some connId) st = (Inr res, st')
           \<and> error res = Some ''Query cancelled by user''
           \<and> queryHistory st' = queryHistory st
           \<and> checkedOut st' = checkedOut st
           \<and> activeQuery st' = None
           \<and> (connectOutcome env2 = Inr cl2 \<and> pidOutcome env2 = Inr p2
                \<and> queryOutcome env2 = Inr pgResult \<longrightarrow>
               (\<exists>res2. fst (execute env2 sql2 (Some connId) st') = Inr res2 \<and> error res2 = None))"
proof -
  define running where "running = st\<lparr> checkedOut := cl # checkedOut st,
      activeQuery := Some \<lparr> client = cl, pid = p, connectionId = connId, cancelled = False \<rparr>,
      queryRunning := True \<rparr>"
  define awaited where "awaited = (case cancelDuring env of None \<Rightarrow> running
      | Some (connectionFound, sendOutcome) \<Rightarrow> snd (cancelCurrentQuery running connectionFound sendOutcome))"
  have ex: "execute env sql (Some connId) st = handleError env sql connId (Some cl) e awaited"
    unfolding awaited_def running_def using assms(1-4)
    by (simp add: execute_def poolConnect_def Let_def)
  have marked: "(case activeQuery awaited of None \<Rightarrow> False | Some aq \<Rightarrow> cancelled aq)
             \<or> includes_str e ''canceling statement due to user request''
             \<or> includes_str e ''57014''"
    unfolding awaited_def running_def using assms(5)
    by (auto simp: cancelCurrentQuery_def split: option.splits)
  have rest: "queryHistory awaited = queryHistory st" "checkedOut awaited = cl # checkedOut st"
    unfolding awaited_def running_def
    by (auto simp: cancelCurrentQuery_def split: option.splits)
  have r: "execute env sql (Some connId) st
     = (Inr \<lparr> columns = [], rows = [], rowCount = 0, duration = endTime env - startTime env,
              error = Some ''Query cancelled by user'' \<rparr>, releaseAndClear (Some cl) awaited)"
    using ex handleError_cancelled[OF marked] by simp
  have again: "\<exists>res2. fst (execute env2 sql2 (Some connId) s) = Inr res2 \<and> error res2 = None"
    if "connectOutcome env2 = Inr cl2 \<and> pidOutcome env2 = Inr p2
        \<and> queryOutcome env2 = Inr pgResult \<and> checkedOut s = checkedOut st" for s
    using that assms(1) by (simp add: execute_def poolConnect_def Let_def)
  have released: "checkedOut (releaseAndClear (Some cl) awaited) = checkedOut st"
    using rest by (simp add: releaseAndClear_def)
  show ?thesis
    using r rest released again[of "releaseAndClear (Some cl) awaited"]
    by (auto simp: releaseAndClear_def)
qed

theorem execute_cancelled_witness:
  "length (checkedOut idleExecutor) < poolMax
   \<and> connectOutcome sampleCancelEnv = Inr 7 \<and> pidOutcome sampleCancelEnv = Inr 4242
   \<and> queryOutcome sampleCancelEnv = Inl ''canceling statement due to user request''
   \<and> cancelDuring sampleCancelEnv \<noteq> None
   \<and> connectOutcome sampleSuccessEnv = Inr 8 \<and> pidOutcome sampleSuccessEnv = Inr 4243
   \<and> queryOutcome sampleSuccessEnv
       = Inr \<lparr> pg_fields = Some [(''n'', 23)], pg_rows = Some [()], pg_rowCount = Some 1 \<rparr>
   \<and> execute sampleCancelEnv ''SELECT pg_sleep(60)'' (Some ''conn-1'') idleExecutor
       = (Inr \<lparr> columns = [], rows = [], rowCount = 0, duration = 250,
                error = Some ''Query cancelled by user'' \<rparr>, idleExecutor)
   \<and> (\<exists>res2. fst (execute sampleSuccessEnv ''SELECT 1'' (Some ''conn-1'') idleExecutor) = Inr res2
               \<and> error res2 = None)"
proof -
  have room: "length (checkedOut idleExecutor) < poolMax"
    by (simp add: idleExecutor_def poolMax_def)
  have h: "connectOutcome sampleCancelEnv = Inr 7" "pidOutcome sampleCancelEnv = Inr 4242"
    "queryOutcome sampleCancelEnv = Inl ''canceling statement due to user request''"
    "cancelDuring sampleCancelEnv \<noteq> None
       \<or> includes_str ''canceling statement due to user request''
            ''canceling statement due to user request''
       \<or> includes_str ''canceling statement due to user request'' ''57014''"
    by (simp_all add: sampleCancelEnv_def)
  have h2: "connectOutcome sampleSuccessEnv = Inr 8 \<and> pidOutcome sampleSuccessEnv = Inr 4243
    \<and> queryOutcome sampleSuccessEnv
       = Inr \<lparr> pg_fields = Some [(''n'', 23)], pg_rows = Some [()], pg_rowCount = Some 1 \<rparr>"
    by (simp add: sampleSuccessEnv_def)
  have c: "cancelDuring sampleCancelEnv \<noteq> None" by (simp add: sampleCancelEnv_def)
  have e: "execute sampleCancelEnv ''SELECT pg_sleep(60)'' (Some ''conn-1'') idleExecutor
       = (Inr \<lparr> columns = [], rows = [], rowCount = 0, duration = 250,
                error = Some ''Query cancelled by user'' \<rparr>, idleExecutor)"
    by (simp add: execute_def poolConnect_def poolMax_def sampleCancelEnv_def idleExecutor_def
          handleError_def Let_def cancelCurrentQuery_def releaseAndClear_def)
  from execute_cancelled [OF room h, of "''SELECT pg_sleep(60)''" "''conn-1''"
      sampleSuccessEnv 8 4243
      "\<lparr> pg_fields = Some [(''n'', 23)], pg_rows = Some [()], pg_rowCount = Some 1 \<rparr>"
      "''SELECT 1''"] h2 e
  have "\<exists>res2. fst (execute sampleSuccessEnv ''SELECT 1'' (Some ''conn-1'') idleExecutor) = Inr res2
               \<and> error res2 = None"
    by auto
  with room h(1-3) h2 c e show ?thesis by simp
qed

end
